theory Spec2Isabelle
  imports Complex_Main "HOL-Library.Word"
begin

section \<open>Strings\<close>

text \<open>
  \<^verbatim>\<open>std::string\<close> is a byte string: \<^typ>\<open>string\<close>. The only string operation the
  converter uses is \<^verbatim>\<open>str.find(substr) != std::string::npos\<close>
  (\<^verbatim>\<open>stringContains\<close>, SceneConverter.cpp 507-513): is \<^verbatim>\<open>substr\<close> a contiguous
  part of \<^verbatim>\<open>str\<close>, bytes compared as they are. The search tries every start
  position from the left; the empty string is found in every string.
\<close>

primrec stringContains :: "string \<Rightarrow> string \<Rightarrow> bool" where
  "stringContains [] substr = (substr = [])"
| "stringContains (c # cs) substr =
     (take (length substr) (c # cs) = substr \<or> stringContains cs substr)"

text \<open>
  Modelled from the spec: \<^verbatim>\<open>string_icontains\<close> and \<^verbatim>\<open>toLower\<close> live in
  \<^verbatim>\<open>utils.hpp\<close>, which is not among the sources. The spec (4.2, 6) calls the
  directory test a "case-insensitive substring match": both strings are folded to
  lower case (ASCII letters only) and then searched as above.
\<close>

definition toLowerChar :: "char \<Rightarrow> char" where
  "toLowerChar c =
     (let n = (of_char c :: nat) in if 65 \<le> n \<and> n \<le> 90 then char_of (n + 32) else c)"

definition toLower :: "string \<Rightarrow> string" where
  "toLower s = map toLowerChar s"

definition string_icontains :: "string \<Rightarrow> string \<Rightarrow> bool" where
  "string_icontains str substr = stringContains (toLower str) (toLower substr)"

section \<open>Sensor classification\<close>

datatype SampleType = CAMERA | RADAR | LIDAR

text \<open>
  \<^verbatim>\<open>getSampleType\<close> (SceneConverter.cpp 28-43, the C++17 variant): a loop over the
  array of pairs that returns at the first marker found in the file name, and
  \<^verbatim>\<open>std::nullopt\<close> after the loop. The search is \<^verbatim>\<open>filename.find(str)\<close>: bytes are
  compared as they are.
\<close>

definition pairs :: "(string \<times> SampleType) list" where
  "pairs = [(''CAM'', CAMERA), (''RADAR'', RADAR), (''LIDAR'', LIDAR)]"

fun getSampleType_loop :: "(string \<times> SampleType) list \<Rightarrow> string \<Rightarrow> SampleType option" where
  "getSampleType_loop [] filename = None"
| "getSampleType_loop ((str, sampleType) # rest) filename =
     (if stringContains filename str then Some sampleType
      else getSampleType_loop rest filename)"

definition getSampleType :: "string \<Rightarrow> SampleType option" where
  "getSampleType filename = getSampleType_loop pairs filename"

text \<open>
  \<^verbatim>\<open>NuScenes2Rosbag::extractSampleSetDescriptorInDirectory\<close> (NuScenes2Rosbag.cpp
  22-47): the same loop over the presets, with \<^verbatim>\<open>string_icontains\<close> as the test. The
  argument is the directory's path; \<^verbatim>\<open>dirName\<close> is its last component, taken here
  as a second argument (\<^verbatim>\<open>std::filesystem\<close> is not modelled).
\<close>

record SampleSetDescriptor =
  directoryName :: string
  setType :: SampleType

record FileSystemSampleSet =
  descriptor :: SampleSetDescriptor
  directoryPath :: string

definition presets :: "(string \<times> SampleType) list" where
  "presets = [(''CAM'', CAMERA), (''RADAR'', RADAR), (''LIDAR'', LIDAR)]"

fun extractSampleSetDescriptor_loop ::
  "(string \<times> SampleType) list \<Rightarrow> string \<Rightarrow> string \<Rightarrow> FileSystemSampleSet option" where
  "extractSampleSetDescriptor_loop [] inDirectoryPath dirName = None"
| "extractSampleSetDescriptor_loop ((name, sampleType) # rest) inDirectoryPath dirName =
     (if string_icontains dirName name
      then Some \<lparr>descriptor = \<lparr>directoryName = dirName, setType = sampleType\<rparr>,
                 directoryPath = inDirectoryPath\<rparr>
      else extractSampleSetDescriptor_loop rest inDirectoryPath dirName)"

definition extractSampleSetDescriptorInDirectory ::
  "string \<Rightarrow> string \<Rightarrow> FileSystemSampleSet option" where
  "extractSampleSetDescriptorInDirectory inDirectoryPath dirName =
     extractSampleSetDescriptor_loop presets inDirectoryPath dirName"

section \<open>Box colours\<close>

text \<open>
  \<^verbatim>\<open>std_msgs::ColorRGBA\<close>. The components are read as the decimal literals the
  source assigns (the rounding of \<^verbatim>\<open>0.619\<close> to a 32-bit float is not modelled).
\<close>

record ColorRGBA =
  r :: real
  g :: real
  b :: real
  a :: real

text \<open>
  \<^verbatim>\<open>getColor\<close> (SceneConverter.cpp 515-614): eleven tests in the source's order,
  each returning its colour, and magenta after the last.
\<close>

definition getColor :: "string \<Rightarrow> ColorRGBA" where
  "getColor categoryName =
     (if stringContains categoryName ''bicycle''
      then \<lparr>r = 1, g = 239 / 1000, b = 388 / 1000, a = 1\<rparr>
      else if stringContains categoryName ''motorcycle''
      then \<lparr>r = 1, g = 239 / 1000, b = 388 / 1000, a = 1\<rparr>
      else if stringContains categoryName ''vehicle''
      then \<lparr>r = 1, g = 619 / 1000, b = 0, a = 1\<rparr>
      else if stringContains categoryName ''bus''
      then \<lparr>r = 1, g = 619 / 1000, b = 0, a = 1\<rparr>
      else if stringContains categoryName ''car''
      then \<lparr>r = 1, g = 619 / 1000, b = 0, a = 1\<rparr>
      else if stringContains categoryName ''construction_vehicle''
      then \<lparr>r = 1, g = 619 / 1000, b = 0, a = 1\<rparr>
      else if stringContains categoryName ''trailer''
      then \<lparr>r = 1, g = 619 / 1000, b = 0, a = 1\<rparr>
      else if stringContains categoryName ''truck''
      then \<lparr>r = 1, g = 619 / 1000, b = 0, a = 1\<rparr>
      else if stringContains categoryName ''pedestrian''
      then \<lparr>r = 0, g = 0, b = 901 / 1000, a = 1\<rparr>
      else if stringContains categoryName ''cone''
      then \<lparr>r = 0, g = 0, b = 0, a = 1\<rparr>
      else if stringContains categoryName ''barrier''
      then \<lparr>r = 0, g = 0, b = 0, a = 1\<rparr>
      else \<lparr>r = 1, g = 0, b = 1, a = 1\<rparr>)"

text \<open>
  The colour table as the spec words it (4.3): an ordered list of rules, each a set
  of keywords with one colour; the first rule with a keyword that occurs in the
  category name gives the colour, and magenta is the default.
\<close>

definition red :: ColorRGBA where
  "red = \<lparr>r = 1, g = 239 / 1000, b = 388 / 1000, a = 1\<rparr>"

definition orange :: ColorRGBA where
  "orange = \<lparr>r = 1, g = 619 / 1000, b = 0, a = 1\<rparr>"

definition blue :: ColorRGBA where
  "blue = \<lparr>r = 0, g = 0, b = 901 / 1000, a = 1\<rparr>"

definition black :: ColorRGBA where
  "black = \<lparr>r = 0, g = 0, b = 0, a = 1\<rparr>"

definition magenta :: ColorRGBA where
  "magenta = \<lparr>r = 1, g = 0, b = 1, a = 1\<rparr>"

definition spec_colorRules :: "(string list \<times> ColorRGBA) list" where
  "spec_colorRules =
     [([''bicycle'', ''motorcycle''], red),
      ([''vehicle'', ''bus'', ''car'', ''construction_vehicle'', ''trailer'', ''truck''], orange),
      ([''pedestrian''], blue),
      ([''cone'', ''barrier''], black)]"

fun spec_firstMatchingRule :: "(string list \<times> ColorRGBA) list \<Rightarrow> string \<Rightarrow> ColorRGBA" where
  "spec_firstMatchingRule [] categoryName = magenta"
| "spec_firstMatchingRule ((keywords, color) # rules) categoryName =
     (if list_ex (stringContains categoryName) keywords then color
      else spec_firstMatchingRule rules categoryName)"

definition spec_keywords :: "string list" where
  "spec_keywords = concat (map fst spec_colorRules)"

section \<open>Numbers\<close>

text \<open>
  \<^verbatim>\<open>TimeStamp\<close> is a 64-bit unsigned count of microseconds (\<^verbatim>\<open>DatasetTypes.hpp\<close> is
  not among the sources; \<^verbatim>\<open>getBoxes\<close> stores differences of time stamps in
  \<^verbatim>\<open>uint64_t\<close> and comments them "unsigned long long"). Subtraction wraps.

  A \<^verbatim>\<open>float\<close> or \<^verbatim>\<open>double\<close> is either a real number or not-a-number; rounding,
  overflow and the infinities are not modelled. \<^verbatim>\<open>static_cast<double>\<close> of a
  \<^verbatim>\<open>float\<close> keeps its value, so both types are \<open>double\<close> here and the cast is
  the identity. Arithmetic yields \<open>NaN\<close> as soon as one operand is \<open>NaN\<close>, and
  \<^verbatim>\<open>0.0 / 0.0\<close> is \<open>NaN\<close>.
\<close>

type_synonym Token = string

type_synonym TimeStamp = "64 word"

datatype double = Val real | NaN

fun dadd :: "double \<Rightarrow> double \<Rightarrow> double" where
  "dadd (Val p) (Val q) = Val (p + q)"
| "dadd _ _ = NaN"

fun dsub :: "double \<Rightarrow> double \<Rightarrow> double" where
  "dsub (Val p) (Val q) = Val (p - q)"
| "dsub _ _ = NaN"

fun dmul :: "double \<Rightarrow> double \<Rightarrow> double" where
  "dmul (Val p) (Val q) = Val (p * q)"
| "dmul _ _ = NaN"

fun dneg :: "double \<Rightarrow> double" where
  "dneg (Val p) = Val (- p)"
| "dneg NaN = NaN"

text \<open>
  Division: the model has no value for \<^verbatim>\<open>x / 0.0\<close> with \<open>x\<close> not zero (an
  infinity). The converter divides by the constant \<^verbatim>\<open>2.0\<close>, and once by a variable,
  in \<^verbatim>\<open>getBoxes\<close>, where the numerator is zero whenever the denominator is (lemma
  \<open>denominator_zero_numerator_zero\<close> below); so \<open>NaN\<close> is what the code computes
  at every zero divisor it can meet.
\<close>

fun ddiv :: "double \<Rightarrow> double \<Rightarrow> double" where
  "ddiv (Val p) (Val q) = (if q = 0 then NaN else Val (p / q))"
| "ddiv _ _ = NaN"

text \<open>
  \<^verbatim>\<open>static_cast<double>\<close> of a \<^verbatim>\<open>uint64_t\<close>: the value itself (exact below \<open>2^53\<close>).
\<close>

definition double_of_uint64 :: "64 word \<Rightarrow> double" where
  "double_of_uint64 n = Val (real (unat n))"

text \<open>
  \<^verbatim>\<open>Eigen::Vector3d\<close>, \<^verbatim>\<open>geometry_msgs::Point\<close> and \<^verbatim>\<open>Vector3\<close>, and the arrays
  \<^verbatim>\<open>translation[3]\<close> and \<^verbatim>\<open>size[3]\<close>, are triples \<open>(x, y, z)\<close>. Every quaternion
  (the array \<^verbatim>\<open>rotation[4]\<close>, \<^verbatim>\<open>Eigen::Quaterniond\<close>, \<^verbatim>\<open>geometry_msgs::Quaternion\<close>)
  is the tuple \<open>(w, x, y, z)\<close>, the order of the array and of \<^verbatim>\<open>makeQuaterniond\<close>.
\<close>

type_synonym Vector3d = "double \<times> double \<times> double"

type_synonym Quaterniond = "double \<times> double \<times> double \<times> double"

section \<open>Dataset records and messages\<close>

text \<open>
  The fields \<^verbatim>\<open>SceneConverter.cpp\<close> reads, under the names of the source behind a
  prefix for the struct (field names are global constants in a theory).
\<close>

record SampleInfo =
  sample_token :: Token
  sample_timeStamp :: TimeStamp
  sample_prev :: Token
  sample_next :: Token

record SampleDataInfo =
  sampleData_token :: Token
  sampleData_sampleToken :: Token
  sampleData_timeStamp :: TimeStamp
  sampleData_fileName :: string
  sampleData_isKeyFrame :: bool
  sampleData_calibratedSensorToken :: Token

record SampleAnnotationInfo =
  annotation_token :: Token
  annotation_instanceToken :: Token
  annotation_translation :: Vector3d
  annotation_size :: Vector3d
  annotation_rotation :: Quaterniond
  annotation_categoryName :: string

record Box =
  box_center :: Vector3d
  box_size :: Vector3d
  box_orientation :: Quaterniond
  box_token :: Token
  box_category_name :: string
  box_color :: ColorRGBA

text \<open>
  The members of \<^verbatim>\<open>SceneConverter\<close> that \<^verbatim>\<open>getBoxes\<close> and \<^verbatim>\<open>convertAnnotations\<close>
  read, as \<^verbatim>\<open>submit\<close> fills them. A \<^verbatim>\<open>std::map\<close> is a partial function.
\<close>

record SceneConverter =
  sceneSamples :: "Token \<rightharpoonup> SampleInfo"
  sceneAnnotations :: "Token \<rightharpoonup> SampleAnnotationInfo list"
  sampleDatas :: "SampleDataInfo list"

section \<open>Boxes of one sample data record\<close>

text \<open>\<^verbatim>\<open>makeBox(annotation)\<close> (SceneConverter.cpp 447-471).\<close>

definition makeBox :: "SampleAnnotationInfo \<Rightarrow> Box" where
  "makeBox annotation =
     (case annotation_translation annotation of (tx, ty, tz) \<Rightarrow>
      case annotation_size annotation of (sx, sy, sz) \<Rightarrow>
      case annotation_rotation annotation of (rw, rx, ry, rz) \<Rightarrow>
        \<lparr>box_center = (tx, ty, tz),
         box_size = (sx, sy, sz),
         box_orientation = (rw, rx, ry, rz),
         box_token = annotation_token annotation,
         box_category_name = annotation_categoryName annotation,
         box_color = getColor (annotation_categoryName annotation)\<rparr>)"

text \<open>\<^verbatim>\<open>makeBox(annotation, center, rotation)\<close> (SceneConverter.cpp 473-496).\<close>

definition makeBox3 :: "SampleAnnotationInfo \<Rightarrow> Vector3d \<Rightarrow> Quaterniond \<Rightarrow> Box" where
  "makeBox3 annotation center rotation =
     (case center of (cx, cy, cz) \<Rightarrow>
      case annotation_size annotation of (sx, sy, sz) \<Rightarrow>
      case rotation of (rw, rx, ry, rz) \<Rightarrow>
        \<lparr>box_center = (cx, cy, cz),
         box_size = (sx, sy, sz),
         box_orientation = (rw, rx, ry, rz),
         box_token = annotation_token annotation,
         box_category_name = annotation_categoryName annotation,
         box_color = getColor (annotation_categoryName annotation)\<rparr>)"

text \<open>\<^verbatim>\<open>lerp\<close> (SceneConverter.cpp 443-445): \<^verbatim>\<open>t*p0 + (1.0 - t)*p1\<close>, by component.\<close>

fun lerp :: "double \<Rightarrow> Vector3d \<Rightarrow> Vector3d \<Rightarrow> Vector3d" where
  "lerp t (x0, y0, z0) (x1, y1, z1) =
     (dadd (dmul t x0) (dmul (dsub (Val 1) t) x1),
      dadd (dmul t y0) (dmul (dsub (Val 1) t) y1),
      dadd (dmul t z0) (dmul (dsub (Val 1) t) z1))"

definition makeQuaterniond :: "Quaterniond \<Rightarrow> Quaterniond" where
  "makeQuaterniond rotation = (case rotation of (rw, rx, ry, rz) \<Rightarrow> (rw, rx, ry, rz))"

text \<open>
  The key-frame loop of \<^verbatim>\<open>getBoxes\<close> (357-360): one \<^verbatim>\<open>push_back\<close> per annotation.
\<close>

primrec pushBoxes :: "SampleAnnotationInfo list \<Rightarrow> Box list \<Rightarrow> Box list" where
  "pushBoxes [] boxes = boxes"
| "pushBoxes (annotation # rest) boxes = pushBoxes rest (boxes @ [makeBox annotation])"

text \<open>
  The loop that fills \<^verbatim>\<open>prevInstanceMap\<close> (398-402). \<^verbatim>\<open>std::map::insert\<close> leaves an
  entry that is already there as it is.
\<close>

primrec insertInstances ::
  "SampleAnnotationInfo list \<Rightarrow> (Token \<rightharpoonup> SampleAnnotationInfo) \<Rightarrow> (Token \<rightharpoonup> SampleAnnotationInfo)" where
  "insertInstances [] prevInstanceMap = prevInstanceMap"
| "insertInstances (annotation # rest) prevInstanceMap =
     insertInstances rest
       (case prevInstanceMap (annotation_instanceToken annotation) of
          None \<Rightarrow> prevInstanceMap(annotation_instanceToken annotation \<mapsto> annotation)
        | Some _ \<Rightarrow> prevInstanceMap)"

text \<open>
  The interpolation fraction (404-409, 422-425): \<open>t\<close> is the record's own time stamp
  forced into \<open>[t0, t1]\<close> by \<^verbatim>\<open>std::max(t0, std::min(t1, t))\<close>, and \<^verbatim>\<open>amount\<close> the
  quotient of the two unsigned differences, as doubles.
\<close>

definition clampTimeStamp :: "TimeStamp \<Rightarrow> TimeStamp \<Rightarrow> TimeStamp \<Rightarrow> TimeStamp" where
  "clampTimeStamp t0 t1 t = max t0 (min t1 t)"

definition amount :: "TimeStamp \<Rightarrow> TimeStamp \<Rightarrow> TimeStamp \<Rightarrow> double" where
  "amount t0 t1 t =
     (let numerator = t - t0;
          denominator = t1 - t0
      in ddiv (double_of_uint64 numerator) (double_of_uint64 denominator))"

text \<open>
  The body of the interpolation loop (411-439) for one annotation of the current
  sample. \<^verbatim>\<open>Eigen::Quaterniond::slerp\<close> is library code outside the repository: it is
  the parameter \<open>slerp\<close>, called as \<^verbatim>\<open>q0.slerp(amount, q1)\<close>.
\<close>

definition interpolateBox ::
  "(double \<Rightarrow> Quaterniond \<Rightarrow> Quaterniond \<Rightarrow> Quaterniond) \<Rightarrow>
   (Token \<rightharpoonup> SampleAnnotationInfo) \<Rightarrow> TimeStamp \<Rightarrow> TimeStamp \<Rightarrow> TimeStamp \<Rightarrow>
   SampleAnnotationInfo \<Rightarrow> Box" where
  "interpolateBox slerp prevInstanceMap t0 t1 t annotation =
     (case prevInstanceMap (annotation_instanceToken annotation) of
        None \<Rightarrow> makeBox annotation
      | Some prevAnnotation \<Rightarrow>
          (let c0 = annotation_translation prevAnnotation;
               c1 = annotation_translation annotation;
               center = lerp (amount t0 t1 t) c1 c0;
               q0 = makeQuaterniond (annotation_rotation prevAnnotation);
               q1 = makeQuaterniond (annotation_rotation annotation);
               rotation = slerp (amount t0 t1 t) q0 q1
           in makeBox3 annotation center rotation))"

primrec pushInterpolated ::
  "(double \<Rightarrow> Quaterniond \<Rightarrow> Quaterniond \<Rightarrow> Quaterniond) \<Rightarrow>
   (Token \<rightharpoonup> SampleAnnotationInfo) \<Rightarrow> TimeStamp \<Rightarrow> TimeStamp \<Rightarrow> TimeStamp \<Rightarrow>
   SampleAnnotationInfo list \<Rightarrow> Box list \<Rightarrow> Box list" where
  "pushInterpolated slerp prevInstanceMap t0 t1 t [] boxes = boxes"
| "pushInterpolated slerp prevInstanceMap t0 t1 t (annotation # rest) boxes =
     pushInterpolated slerp prevInstanceMap t0 t1 t rest
       (boxes @ [interpolateBox slerp prevInstanceMap t0 t1 t annotation])"

text \<open>
  \<^verbatim>\<open>SceneConverter::getBoxes\<close> (328-441). The result is the lines written to
  \<^verbatim>\<open>std::cout\<close> by the call and the vector \<^verbatim>\<open>boxes\<close> as the call leaves it. The
  function throws nowhere: each failed \<^verbatim>\<open>find\<close> prints a line and returns.
\<close>

definition getBoxes ::
  "(double \<Rightarrow> Quaterniond \<Rightarrow> Quaterniond \<Rightarrow> Quaterniond) \<Rightarrow>
   SceneConverter \<Rightarrow> SampleDataInfo \<Rightarrow> Box list \<Rightarrow> string list \<times> Box list" where
  "getBoxes slerp this sampleData boxes =
     (let currSampleToken = sampleData_sampleToken sampleData in
      case sceneSamples this currSampleToken of
        None \<Rightarrow> ([''can't find current sample token in sceneSamples''], boxes)
      | Some currSample \<Rightarrow>
          if sampleData_isKeyFrame sampleData \<or> sample_prev currSample = []
          then
            (case sceneAnnotations this currSampleToken of
               None \<Rightarrow> ([''can't find current sample token in sceneAnnotations''], boxes)
             | Some annotations \<Rightarrow> ([], pushBoxes annotations boxes))
          else
            (case sceneSamples this (sample_prev currSample) of
               None \<Rightarrow> ([''can't find prev sample token in sceneSamples''], boxes)
             | Some prevSample \<Rightarrow>
                 (case sceneAnnotations this currSampleToken of
                    None \<Rightarrow> ([''can't find current sample token in sceneAnnotations''], boxes)
                  | Some currAnnotations \<Rightarrow>
                      (case sceneAnnotations this (sample_token prevSample) of
                         None \<Rightarrow>
                           ([''can't find previous sample token in sceneAnnotations''], boxes)
                       | Some prevAnnotations \<Rightarrow>
                           (let prevInstanceMap = insertInstances prevAnnotations Map.empty;
                                t0 = sample_timeStamp prevSample;
                                t1 = sample_timeStamp currSample;
                                t = clampTimeStamp t0 t1 (sampleData_timeStamp sampleData)
                            in ([], pushInterpolated slerp prevInstanceMap t0 t1 t
                                      currAnnotations boxes))))))"

section \<open>Messages written for the annotations\<close>

text \<open>
  \<^verbatim>\<open>ros::Time\<close> is a pair of 32-bit counts. \<^verbatim>\<open>stampUs2RosTime\<close> (\<^verbatim>\<open>utils.hpp\<close>, not
  among the sources) and the action of the pose
  \<^verbatim>\<open>Eigen::Translation3d(center) * Eigen::Quaterniond(orientation)\<close> on a point
  (Eigen, outside the repository) are parameters of the functions that call them.
\<close>

record RosTime =
  sec :: "32 word"
  nsec :: "32 word"

datatype MarkerType = LINE_LIST

datatype MarkerAction = ADD

record Marker =
  marker_type :: MarkerType
  marker_action :: MarkerAction
  marker_frame_id :: string
  marker_ns :: string
  marker_id :: "32 word"
  marker_stamp :: RosTime
  marker_lifetime :: real
  marker_position :: Vector3d
  marker_orientation :: Quaterniond
  marker_scale_x :: real
  marker_color :: ColorRGBA
  marker_points :: "Vector3d list"
  marker_colors :: "ColorRGBA list"

record Boxes =
  boxes_stamp :: RosTime
  boxes_frame_id :: string
  boxes_boxes :: "Box list"

datatype BagMessage = BoxesMsg Boxes | MarkerArrayMsg "Marker list"

text \<open>
  The output bag: the calls of \<^verbatim>\<open>outBag.write(topic, time, message)\<close> in the order
  they are made.
\<close>

type_synonym Bag = "(string \<times> RosTime \<times> BagMessage) list"

text \<open>
  \<^verbatim>\<open>makeMarkerMsg\<close> (616-738). The eight corners of the box, moved by the pose, and
  the point list of a \<^verbatim>\<open>LINE_LIST\<close>: each pair of points is one line.
\<close>

definition makeMarkerMsg ::
  "(Vector3d \<Rightarrow> Quaterniond \<Rightarrow> Vector3d \<Rightarrow> Vector3d) \<Rightarrow>
   Box \<Rightarrow> 32 word \<Rightarrow> RosTime \<Rightarrow> real \<Rightarrow> Marker" where
  "makeMarkerMsg applyPose box ident timestamp lifetime =
     (case box_size box of (width, depth, height) \<Rightarrow>
      let lineWidth = 1 / 10;
          pose = applyPose (box_center box) (box_orientation box);
          minPoint = (ddiv (dneg depth) (Val 2), ddiv (dneg width) (Val 2),
                      ddiv (dneg height) (Val 2));
          maxPoint = (ddiv depth (Val 2), ddiv width (Val 2), ddiv height (Val 2))
      in case minPoint of (min0, min1, min2) \<Rightarrow>
         case maxPoint of (max0, max1, max2) \<Rightarrow>
      let p1 = pose (min0, min1, min2);
          p2 = pose (min0, min1, max2);
          p3 = pose (max0, min1, max2);
          p4 = pose (max0, min1, min2);
          p5 = pose (min0, max1, min2);
          p6 = pose (min0, max1, max2);
          p7 = pose (max0, max1, max2);
          p8 = pose (max0, max1, min2);
          color = box_color box
      in \<lparr>marker_type = LINE_LIST,
          marker_action = ADD,
          marker_frame_id = ''map'',
          marker_ns = ''annotations'',
          marker_id = ident,
          marker_stamp = timestamp,
          marker_lifetime = lifetime,
          marker_position = (Val 0, Val 0, Val 0),
          marker_orientation = (Val 1, Val 0, Val 0, Val 0),
          marker_scale_x = lineWidth,
          marker_color = color,
          marker_points =
            [p1, p2,
             p1, p4,
             p1, p5,
             p5, p6,
             p5, p8,
             p2, p6,
             p6, p7,
             p7, p8,
             p2, p3,
             p4, p8,
             p3, p4,
             p3, p7],
          marker_colors =
            [color, color,
             color, color,
             color, color,
             color, color,
             color, color,
             color, color,
             color, color,
             color, color,
             color, color,
             color, color,
             color, color,
             color, color]\<rparr>)"

text \<open>
  \<^verbatim>\<open>makeMarkerArrayMsg\<close> (740-752): the loop with its counter \<^verbatim>\<open>id\<close> (here
  \<open>ident\<close>), an \<^verbatim>\<open>unsigned int\<close> that starts at 0.
\<close>

primrec pushMarkers ::
  "(Vector3d \<Rightarrow> Quaterniond \<Rightarrow> Vector3d \<Rightarrow> Vector3d) \<Rightarrow>
   RosTime \<Rightarrow> real \<Rightarrow> Box list \<Rightarrow> 32 word \<Rightarrow> Marker list \<Rightarrow> Marker list" where
  "pushMarkers applyPose timestamp lifetime [] ident markers = markers"
| "pushMarkers applyPose timestamp lifetime (box # rest) ident markers =
     pushMarkers applyPose timestamp lifetime rest (ident + 1)
       (markers @ [makeMarkerMsg applyPose box ident timestamp lifetime])"

definition makeMarkerArrayMsg ::
  "(Vector3d \<Rightarrow> Quaterniond \<Rightarrow> Vector3d \<Rightarrow> Vector3d) \<Rightarrow>
   Box list \<Rightarrow> RosTime \<Rightarrow> real \<Rightarrow> Marker list" where
  "makeMarkerArrayMsg applyPose boxes timestamp lifetime =
     pushMarkers applyPose timestamp lifetime boxes 0 []"

text \<open>
  \<^verbatim>\<open>SceneConverter::convertAnnotations\<close> (278-321), the C++17 variant: the loop over
  \<^verbatim>\<open>sampleDatas\<close>. A file name that \<^verbatim>\<open>getSampleType\<close> does not classify is skipped
  (\<^verbatim>\<open>continue\<close>); the two messages are written inside
  \<^verbatim>\<open>if (sampleType == SampleType::LIDAR)\<close>. The sensor name looked up at 297-302 is
  not used by the function and is left out (the spec gives the two lookups as total).
  \<^verbatim>\<open>getBoxes\<close> starts from an empty vector; what it prints is not kept here.
\<close>

record Collaborators =
  ext_slerp :: "double \<Rightarrow> Quaterniond \<Rightarrow> Quaterniond \<Rightarrow> Quaterniond"
  ext_applyPose :: "Vector3d \<Rightarrow> Quaterniond \<Rightarrow> Vector3d \<Rightarrow> Vector3d"
  ext_stampUs2RosTime :: "TimeStamp \<Rightarrow> RosTime"

definition writeAnnotations :: "Collaborators \<Rightarrow> SceneConverter \<Rightarrow> SampleDataInfo \<Rightarrow> Bag \<Rightarrow> Bag" where
  "writeAnnotations ext this sampleData outBag =
     (let boxes = snd (getBoxes (ext_slerp ext) this sampleData []);
          timestamp = ext_stampUs2RosTime ext (sampleData_timeStamp sampleData);
          boxesMsg = \<lparr>boxes_stamp = timestamp, boxes_frame_id = ''map'', boxes_boxes = boxes\<rparr>;
          outBag1 = outBag @ [(''boxes'', timestamp, BoxesMsg boxesMsg)];
          lifetime = 1 / 25;
          boxesVizMsg = makeMarkerArrayMsg (ext_applyPose ext) boxes timestamp lifetime
      in outBag1 @ [(''boxes_viz'', timestamp, MarkerArrayMsg boxesVizMsg)])"

primrec convertAnnotations_loop ::
  "Collaborators \<Rightarrow> SceneConverter \<Rightarrow> SampleDataInfo list \<Rightarrow> Bag \<Rightarrow> Bag" where
  "convertAnnotations_loop ext this [] outBag = outBag"
| "convertAnnotations_loop ext this (sampleData # rest) outBag =
     (case getSampleType (sampleData_fileName sampleData) of
        None \<Rightarrow> convertAnnotations_loop ext this rest outBag
      | Some sampleType \<Rightarrow>
          if sampleType = LIDAR
          then convertAnnotations_loop ext this rest (writeAnnotations ext this sampleData outBag)
          else convertAnnotations_loop ext this rest outBag)"

definition convertAnnotations :: "Collaborators \<Rightarrow> SceneConverter \<Rightarrow> Bag \<Rightarrow> Bag" where
  "convertAnnotations ext this outBag = convertAnnotations_loop ext this (sampleDatas this) outBag"

section \<open>Launching the decode pipeline\<close>

text \<open>
  \<^verbatim>\<open>NuScenes2Rosbag::processSampleSets\<close> up to the drain loop (NuScenes2Rosbag.cpp
  81-109). A queue is named by its index in \<^verbatim>\<open>typeErasedQueueList\<close>; a converter
  holds the producer end of one queue and the directory it reads. The loop (91-107)
  creates one queue per sample set and one converter per camera set, and throws
  \<^verbatim>\<open>std::runtime_error\<close> at a set of another type. After the loop (108-109) the
  converter \<^verbatim>\<open>sampleSetConverters.back()\<close> is posted to the pool; \<^verbatim>\<open>back()\<close> of
  an empty vector is undefined behaviour. \<^verbatim>\<open>topicNameForSampleSetType\<close>
  (\<^verbatim>\<open>utils.hpp\<close>, not among the sources) is a parameter. The drain loop that
  follows (115-127) runs beside the pool's threads and is not part of this model.
\<close>

datatype error = RuntimeError string | UndefinedBehaviour

record Converter =
  converter_queue :: nat
  converter_directoryPath :: string

record Pipeline =
  typeErasedQueueList :: "(string \<times> nat) list"
  sampleSetConverters :: "Converter list"
  posted :: "Converter list"

fun makeQueues ::
  "(string \<Rightarrow> SampleType \<Rightarrow> string) \<Rightarrow> FileSystemSampleSet list \<Rightarrow>
   (string \<times> nat) list \<Rightarrow> Converter list \<Rightarrow> error + (string \<times> nat) list \<times> Converter list" where
  "makeQueues topicNameForSampleSetType [] queues converters = Inr (queues, converters)"
| "makeQueues topicNameForSampleSetType (sampleSet # rest) queues converters =
     (let queue = length queues;
          queues1 = queues @
            [(topicNameForSampleSetType (directoryName (descriptor sampleSet))
                (setType (descriptor sampleSet)), queue)]
      in if setType (descriptor sampleSet) = CAMERA
         then makeQueues topicNameForSampleSetType rest queues1
                (converters @
                   [\<lparr>converter_queue = queue,
                     converter_directoryPath = directoryPath sampleSet\<rparr>])
         else Inl (RuntimeError ''Not supported SampleSetType''))"

definition launchPipeline ::
  "(string \<Rightarrow> SampleType \<Rightarrow> string) \<Rightarrow> FileSystemSampleSet list \<Rightarrow> error + Pipeline" where
  "launchPipeline topicNameForSampleSetType sampleSets =
     (case makeQueues topicNameForSampleSetType sampleSets [] [] of
        Inl e \<Rightarrow> Inl e
      | Inr (queues, converters) \<Rightarrow>
          if converters = [] then Inl UndefinedBehaviour
          else Inr \<lparr>typeErasedQueueList = queues,
                    sampleSetConverters = converters,
                    posted = [last converters]\<rparr>)"

text \<open>
  \<^verbatim>\<open>NuScenes2Rosbag::filterChosenSampleSets\<close> (65-75): the camera sets, in order.
\<close>

definition filterChosenSampleSets :: "FileSystemSampleSet list \<Rightarrow> FileSystemSampleSet list" where
  "filterChosenSampleSets sampleSets =
     filter (\<lambda>fileSystemSampleSet. setType (descriptor fileSystemSampleSet) = CAMERA) sampleSets"

section \<open>Notions of the specification\<close>

text \<open>
  The annotations attached to a sample (spec 3 and 4.1): the entry of the sample's
  token in the scene's annotation map, and none when the map has no entry.
\<close>

definition annotationsOfSample :: "SceneConverter \<Rightarrow> Token \<Rightarrow> SampleAnnotationInfo list" where
  "annotationsOfSample this sampleToken =
     (case sceneAnnotations this sampleToken of None \<Rightarrow> [] | Some annotations \<Rightarrow> annotations)"

text \<open>
  The box of a current annotation at a given interpolation fraction (spec 4.3): the
  annotation's own box when no previous annotation has its instance token, and
  otherwise the centre interpolated linearly and the orientation spherically between
  the first previous annotation of that instance and the current one, at the fraction.
\<close>

definition spec_boxAtFraction ::
  "(double \<Rightarrow> Quaterniond \<Rightarrow> Quaterniond \<Rightarrow> Quaterniond) \<Rightarrow>
   SampleAnnotationInfo list \<Rightarrow> double \<Rightarrow> SampleAnnotationInfo \<Rightarrow> Box" where
  "spec_boxAtFraction slerp prevAnnotations fraction annotation =
     (case find (\<lambda>p. annotation_instanceToken p = annotation_instanceToken annotation)
             prevAnnotations of
        None \<Rightarrow> makeBox annotation
      | Some prevAnnotation \<Rightarrow>
          makeBox3 annotation
            (lerp fraction (annotation_translation annotation)
               (annotation_translation prevAnnotation))
            (slerp fraction (annotation_rotation prevAnnotation)
               (annotation_rotation annotation)))"

text \<open>The arithmetic mean of two points, by component: \<^verbatim>\<open>(p + q) / 2.0\<close>.\<close>

fun spec_mean :: "Vector3d \<Rightarrow> Vector3d \<Rightarrow> Vector3d" where
  "spec_mean (x0, y0, z0) (x1, y1, z1) =
     (ddiv (dadd x0 x1) (Val 2), ddiv (dadd y0 y1) (Val 2), ddiv (dadd z0 z1) (Val 2))"

text \<open>
  The classification as the spec words it (4.2): the ordered marker list, and the
  category of the first marker that the test finds in the name; absent when it finds
  none. The test is the parameter \<open>contains\<close>.
\<close>

definition spec_markers :: "(string \<times> SampleType) list" where
  "spec_markers = [(''CAM'', CAMERA), (''RADAR'', RADAR), (''LIDAR'', LIDAR)]"

definition spec_classify ::
  "(string \<Rightarrow> string \<Rightarrow> bool) \<Rightarrow> string \<Rightarrow> SampleType option" where
  "spec_classify contains name =
     map_option snd (find (\<lambda>marker. contains name (fst marker)) spec_markers)"

text \<open>
  The lines of a \<^verbatim>\<open>LINE_LIST\<close> marker: the first and second point, the third and
  fourth, and so on.
\<close>

fun linesOf :: "'p list \<Rightarrow> ('p \<times> 'p) list" where
  "linesOf (p # q # rest) = (p, q) # linesOf rest"
| "linesOf _ = []"

section \<open>A small scene\<close>

text \<open>
  Two samples, the second after the first; one car seen in both and a pedestrian seen
  in the second only; lidar records of the second sample (a key frame, and two sweeps
  whose time stamps lie before and after the interval of the samples), a sweep of the
  first sample, and a camera key frame.
\<close>

definition example_sample1 :: SampleInfo where
  "example_sample1 =
     \<lparr>sample_token = ''s1'', sample_timeStamp = 100, sample_prev = [], sample_next = ''s2''\<rparr>"

definition example_sample2 :: SampleInfo where
  "example_sample2 =
     \<lparr>sample_token = ''s2'', sample_timeStamp = 200, sample_prev = ''s1'', sample_next = []\<rparr>"

definition example_car_before :: SampleAnnotationInfo where
  "example_car_before =
     \<lparr>annotation_token = ''a1'', annotation_instanceToken = ''car1'',
      annotation_translation = (Val 0, Val 0, Val 0),
      annotation_size = (Val 2, Val 4, Val 1),
      annotation_rotation = (Val 1, Val 0, Val 0, Val 0),
      annotation_categoryName = ''vehicle.car''\<rparr>"

definition example_car :: SampleAnnotationInfo where
  "example_car =
     \<lparr>annotation_token = ''a2'', annotation_instanceToken = ''car1'',
      annotation_translation = (Val 2, Val 4, Val 6),
      annotation_size = (Val 2, Val 4, Val 1),
      annotation_rotation = (Val 0, Val 0, Val 0, Val 1),
      annotation_categoryName = ''vehicle.car''\<rparr>"

definition example_pedestrian :: SampleAnnotationInfo where
  "example_pedestrian =
     \<lparr>annotation_token = ''a3'', annotation_instanceToken = ''ped1'',
      annotation_translation = (Val 5, Val 5, Val 0),
      annotation_size = (Val 1, Val 1, Val 2),
      annotation_rotation = (Val 1, Val 0, Val 0, Val 0),
      annotation_categoryName = ''human.pedestrian.adult''\<rparr>"

definition example_keyframe :: SampleDataInfo where
  "example_keyframe =
     \<lparr>sampleData_token = ''d1'', sampleData_sampleToken = ''s2'', sampleData_timeStamp = 200,
      sampleData_fileName = ''samples/LIDAR_TOP/n008__LIDAR_TOP__200.pcd.bin'',
      sampleData_isKeyFrame = True, sampleData_calibratedSensorToken = ''c1''\<rparr>"

definition example_sweep_early :: SampleDataInfo where
  "example_sweep_early =
     \<lparr>sampleData_token = ''d2'', sampleData_sampleToken = ''s2'', sampleData_timeStamp = 50,
      sampleData_fileName = ''sweeps/LIDAR_TOP/n008__LIDAR_TOP__50.pcd.bin'',
      sampleData_isKeyFrame = False, sampleData_calibratedSensorToken = ''c1''\<rparr>"

definition example_sweep_late :: SampleDataInfo where
  "example_sweep_late =
     \<lparr>sampleData_token = ''d3'', sampleData_sampleToken = ''s2'', sampleData_timeStamp = 250,
      sampleData_fileName = ''sweeps/LIDAR_TOP/n008__LIDAR_TOP__250.pcd.bin'',
      sampleData_isKeyFrame = False, sampleData_calibratedSensorToken = ''c1''\<rparr>"

definition example_sweep_first :: SampleDataInfo where
  "example_sweep_first =
     \<lparr>sampleData_token = ''d4'', sampleData_sampleToken = ''s1'', sampleData_timeStamp = 90,
      sampleData_fileName = ''sweeps/LIDAR_TOP/n008__LIDAR_TOP__90.pcd.bin'',
      sampleData_isKeyFrame = False, sampleData_calibratedSensorToken = ''c1''\<rparr>"

definition example_camera :: SampleDataInfo where
  "example_camera =
     \<lparr>sampleData_token = ''d5'', sampleData_sampleToken = ''s2'', sampleData_timeStamp = 200,
      sampleData_fileName = ''samples/CAM_FRONT/n008__CAM_FRONT__200.jpg'',
      sampleData_isKeyFrame = True, sampleData_calibratedSensorToken = ''c2''\<rparr>"

definition example_scene :: SceneConverter where
  "example_scene =
     \<lparr>sceneSamples = [''s1'' \<mapsto> example_sample1, ''s2'' \<mapsto> example_sample2],
      sceneAnnotations =
        [''s1'' \<mapsto> [example_car_before], ''s2'' \<mapsto> [example_car, example_pedestrian]],
      sampleDatas = [example_camera, example_keyframe]\<rparr>"

text \<open>The same scene when the first sample has no entry in the annotation map.\<close>

definition example_scene_unannotated_start :: SceneConverter where
  "example_scene_unannotated_start =
     example_scene\<lparr>sceneAnnotations := [''s2'' \<mapsto> [example_car, example_pedestrian]]\<rparr>"

text \<open>The scene with the camera record alone.\<close>

definition example_scene_camera_only :: SceneConverter where
  "example_scene_camera_only = example_scene\<lparr>sampleDatas := [example_camera]\<rparr>"

text \<open>
  Stand-ins for the collaborators, to run the functions on the scene: an
  interpolation that jumps from the first quaternion to the second at fraction 1, a
  pose that only translates, and a time conversion into seconds and nanoseconds.
\<close>

definition example_slerp :: "double \<Rightarrow> Quaterniond \<Rightarrow> Quaterniond \<Rightarrow> Quaterniond" where
  "example_slerp fraction q0 q1 = (if fraction = Val 1 then q1 else q0)"

fun example_applyPose :: "Vector3d \<Rightarrow> Quaterniond \<Rightarrow> Vector3d \<Rightarrow> Vector3d" where
  "example_applyPose (cx, cy, cz) q (px, py, pz) = (dadd cx px, dadd cy py, dadd cz pz)"

definition example_ext :: Collaborators where
  "example_ext =
     \<lparr>ext_slerp = example_slerp,
      ext_applyPose = example_applyPose,
      ext_stampUs2RosTime =
        (\<lambda>stampUs. \<lparr>sec = ucast (stampUs div 1000000),
                     nsec = ucast ((stampUs mod 1000000) * 1000)\<rparr>)\<rparr>"

definition example_cam_front :: FileSystemSampleSet where
  "example_cam_front =
     \<lparr>descriptor = \<lparr>directoryName = ''CAM_FRONT'', setType = CAMERA\<rparr>,
      directoryPath = ''samples/CAM_FRONT''\<rparr>"

definition example_cam_back :: FileSystemSampleSet where
  "example_cam_back =
     \<lparr>descriptor = \<lparr>directoryName = ''CAM_BACK'', setType = CAMERA\<rparr>,
      directoryPath = ''samples/CAM_BACK''\<rparr>"

section \<open>Facts about substring search\<close>

lemma stringContains_iff:
  "stringContains str substr \<longleftrightarrow> (\<exists>ps ss. str = ps @ substr @ ss)"
proof (induction str)
  case Nil
  then show ?case by auto
next
  case (Cons c cs)
  have "take (length substr) (c # cs) = substr \<longleftrightarrow> (\<exists>ss. c # cs = substr @ ss)"
    by (metis append_eq_conv_conj append_take_drop_id)
  moreover have "(\<exists>ps ss. c # cs = ps @ substr @ ss) \<longleftrightarrow>
      (\<exists>ss. c # cs = substr @ ss) \<or> (\<exists>ps ss. cs = ps @ substr @ ss)"
  proof
    assume "\<exists>ps ss. c # cs = ps @ substr @ ss"
    then obtain ps ss where e: "c # cs = ps @ substr @ ss" by blast
    show "(\<exists>ss. c # cs = substr @ ss) \<or> (\<exists>ps ss. cs = ps @ substr @ ss)"
    proof (cases ps)
      case Nil
      with e show ?thesis by auto
    next
      case (Cons p ps')
      with e have "cs = ps' @ substr @ ss" by simp
      then show ?thesis by blast
    qed
  next
    assume "(\<exists>ss. c # cs = substr @ ss) \<or> (\<exists>ps ss. cs = ps @ substr @ ss)"
    then show "\<exists>ps ss. c # cs = ps @ substr @ ss"
    proof
      assume "\<exists>ss. c # cs = substr @ ss"
      then obtain ss where "c # cs = [] @ substr @ ss" by auto
      then show ?thesis by blast
    next
      assume "\<exists>ps ss. cs = ps @ substr @ ss"
      then obtain ps ss where "cs = ps @ substr @ ss" by blast
      then have "c # cs = (c # ps) @ substr @ ss" by simp
      then show ?thesis by blast
    qed
  qed
  ultimately show ?case using Cons.IH by simp
qed

section \<open>The colour of a category\<close>

text \<open>
  C9. For every category name the colour \<^verbatim>\<open>getColor\<close> returns is the colour of the
  first rule, in the order bicycle/motorcycle (red), vehicle/bus/car/
  construction_vehicle/trailer/truck (orange), pedestrian (blue), cone/barrier
  (black), that has a keyword occurring in the name, and magenta when no rule has
  one. In particular "vehicle.car" is orange (1.0, 0.619, 0.0, 1.0),
  "human.pedestrian.adult" is blue (0.0, 0.0, 0.901, 1.0), and a name in which no
  keyword occurs is magenta (1.0, 0.0, 1.0, 1.0).
\<close>

theorem getColor_first_matching_rule:
  "getColor categoryName = spec_firstMatchingRule spec_colorRules categoryName
   \<and> getColor ''vehicle.car'' = \<lparr>r = 1, g = 619 / 1000, b = 0, a = 1\<rparr>
   \<and> getColor ''human.pedestrian.adult'' = \<lparr>r = 0, g = 0, b = 901 / 1000, a = 1\<rparr>
   \<and> (\<not> list_ex (stringContains categoryName) spec_keywords
        \<longrightarrow> getColor categoryName = \<lparr>r = 1, g = 0, b = 1, a = 1\<rparr>)"
proof -
  have rules: "getColor categoryName = spec_firstMatchingRule spec_colorRules categoryName"
    by (simp add: getColor_def spec_colorRules_def red_def orange_def blue_def black_def
        magenta_def)
  have car: "getColor ''vehicle.car'' = \<lparr>r = 1, g = 619 / 1000, b = 0, a = 1\<rparr>"
    by (simp add: getColor_def)
  have ped: "getColor ''human.pedestrian.adult'' = \<lparr>r = 0, g = 0, b = 901 / 1000, a = 1\<rparr>"
    by (simp add: getColor_def)
  have none: "\<not> list_ex (stringContains categoryName) spec_keywords
        \<longrightarrow> getColor categoryName = \<lparr>r = 1, g = 0, b = 1, a = 1\<rparr>"
    by (simp add: getColor_def spec_keywords_def spec_colorRules_def)
  from rules car ped none show ?thesis by blast
qed

theorem getColor_first_matching_rule_witness:
  "getColor ''animal'' = spec_firstMatchingRule spec_colorRules ''animal''
   \<and> \<not> list_ex (stringContains ''animal'') spec_keywords
   \<and> getColor ''animal'' = \<lparr>r = 1, g = 0, b = 1, a = 1\<rparr>
   \<and> getColor ''vehicle.bicycle'' = \<lparr>r = 1, g = 239 / 1000, b = 388 / 1000, a = 1\<rparr>"
proof -
  have h: "\<not> list_ex (stringContains ''animal'') spec_keywords"
    by (simp add: spec_keywords_def spec_colorRules_def)
  have bike: "getColor ''vehicle.bicycle'' = \<lparr>r = 1, g = 239 / 1000, b = 388 / 1000, a = 1\<rparr>"
    by (simp add: getColor_def)
  from getColor_first_matching_rule [of "''animal''"] h bike show ?thesis by blast
qed

section \<open>Facts about the loops of getBoxes\<close>

lemma pushBoxes_eq: "pushBoxes annotations boxes = boxes @ map makeBox annotations"
  by (induction annotations arbitrary: boxes) simp_all

lemma pushInterpolated_eq:
  "pushInterpolated slerp m t0 t1 t annotations boxes =
     boxes @ map (interpolateBox slerp m t0 t1 t) annotations"
  by (induction annotations arbitrary: boxes) simp_all

lemma insertInstances_lookup:
  "insertInstances annotations m k =
     (case m k of
        Some v \<Rightarrow> Some v
      | None \<Rightarrow> find (\<lambda>p. annotation_instanceToken p = k) annotations)"
proof (induction annotations arbitrary: m)
  case Nil
  then show ?case by (simp split: option.split)
next
  case (Cons p ps)
  then show ?case by (auto split: option.split)
qed

lemma insertInstances_empty:
  "insertInstances annotations Map.empty k =
     find (\<lambda>p. annotation_instanceToken p = k) annotations"
  by (simp add: insertInstances_lookup)

lemma interpolateBox_spec:
  "interpolateBox slerp (insertInstances prevAnnotations Map.empty) t0 t1 t annotation =
     spec_boxAtFraction slerp prevAnnotations (amount t0 t1 t) annotation"
  by (simp add: interpolateBox_def spec_boxAtFraction_def insertInstances_empty
      makeQuaterniond_def Let_def split: option.split prod.split)

lemma makeBox_fields:
  "box_center (makeBox p) = annotation_translation p"
  "box_size (makeBox p) = annotation_size p"
  "box_orientation (makeBox p) = annotation_rotation p"
  "box_token (makeBox p) = annotation_token p"
  "box_category_name (makeBox p) = annotation_categoryName p"
  "box_color (makeBox p) = getColor (annotation_categoryName p)"
  by (simp_all add: makeBox_def split: prod.split)

lemma makeBox3_fields:
  "box_center (makeBox3 p c q) = c"
  "box_size (makeBox3 p c q) = annotation_size p"
  "box_orientation (makeBox3 p c q) = q"
  "box_token (makeBox3 p c q) = annotation_token p"
  "box_category_name (makeBox3 p c q) = annotation_categoryName p"
  "box_color (makeBox3 p c q) = getColor (annotation_categoryName p)"
  by (simp_all add: makeBox3_def split: prod.split)

text \<open>
  What \<^verbatim>\<open>getBoxes\<close> returns in each of its two branches, once its lookups succeed.
\<close>

lemma getBoxes_keyframe_branch:
  assumes "sceneSamples this (sampleData_sampleToken sampleData) = Some currSample"
    and "sampleData_isKeyFrame sampleData \<or> sample_prev currSample = []"
    and "sceneAnnotations this (sampleData_sampleToken sampleData) = Some annotations"
  shows "getBoxes slerp this sampleData boxes = ([], boxes @ map makeBox annotations)"
  using assms by (auto simp: getBoxes_def pushBoxes_eq)

lemma getBoxes_intermediate_branch:
  assumes "sceneSamples this (sampleData_sampleToken sampleData) = Some currSample"
    and "\<not> sampleData_isKeyFrame sampleData" and "sample_prev currSample \<noteq> []"
    and "sceneSamples this (sample_prev currSample) = Some prevSample"
    and "sceneAnnotations this (sampleData_sampleToken sampleData) = Some currAnnotations"
    and "sceneAnnotations this (sample_token prevSample) = Some prevAnnotations"
  shows "getBoxes slerp this sampleData boxes =
     ([], boxes @ map (spec_boxAtFraction slerp prevAnnotations
            (amount (sample_timeStamp prevSample) (sample_timeStamp currSample)
               (clampTimeStamp (sample_timeStamp prevSample) (sample_timeStamp currSample)
                  (sampleData_timeStamp sampleData))))
          currAnnotations)"
proof -
  have "interpolateBox slerp (insertInstances prevAnnotations Map.empty) t0 t1 t =
      spec_boxAtFraction slerp prevAnnotations (amount t0 t1 t)" for t0 t1 t
    by (rule ext) (rule interpolateBox_spec)
  with assms show ?thesis
    by (simp add: getBoxes_def pushInterpolated_eq Let_def)
qed

section \<open>Facts about the interpolation fraction\<close>

lemma denominator_zero_numerator_zero:
  "t1 - t0 = (0 :: 64 word) \<Longrightarrow> clampTimeStamp t0 t1 t - t0 = 0"
  by (simp add: clampTimeStamp_def)

lemma clampTimeStamp_below: "t0 < t1 \<Longrightarrow> t < t0 \<Longrightarrow> clampTimeStamp t0 t1 t = t0"
  by (simp add: clampTimeStamp_def)

lemma clampTimeStamp_above: "t0 < t1 \<Longrightarrow> t1 < t \<Longrightarrow> clampTimeStamp t0 t1 t = t1"
  by (simp add: clampTimeStamp_def)

lemma unat_diff_nonzero: "t1 \<noteq> t0 \<Longrightarrow> unat (t1 - t0 :: 64 word) \<noteq> 0"
  by (simp add: unat_eq_0)

lemma amount_at_t0: "t1 \<noteq> t0 \<Longrightarrow> amount t0 t1 t0 = Val 0"
  using unat_diff_nonzero [of t1 t0]
  by (simp add: amount_def double_of_uint64_def Let_def del: of_nat_unat)

lemma amount_at_t1: "t1 \<noteq> t0 \<Longrightarrow> amount t0 t1 t1 = Val 1"
  using unat_diff_nonzero [of t1 t0]
  by (simp add: amount_def double_of_uint64_def Let_def del: of_nat_unat)

section \<open>Key frames\<close>

text \<open>
  C1. For a sample data record whose sample is in the scene's sample map, and which
  is flagged as a key frame or whose sample has an empty previous-sample token,
  \<^verbatim>\<open>getBoxes\<close> appends to \<^verbatim>\<open>boxes\<close> exactly one box per annotation attached to
  that sample, in order, each the box \<^verbatim>\<open>makeBox\<close> builds from the annotation; and
  such a box carries the annotation's translation, size, rotation, token and
  category name unchanged.
\<close>

theorem getBoxes_keyframe_identity:
  assumes "sceneSamples this (sampleData_sampleToken sampleData) = Some currSample"
    and "sampleData_isKeyFrame sampleData \<or> sample_prev currSample = []"
  shows "snd (getBoxes slerp this sampleData boxes) =
           boxes @ map makeBox (annotationsOfSample this (sampleData_sampleToken sampleData))
         \<and> (\<forall>annotation.
               box_center (makeBox annotation) = annotation_translation annotation
             \<and> box_size (makeBox annotation) = annotation_size annotation
             \<and> box_orientation (makeBox annotation) = annotation_rotation annotation
             \<and> box_token (makeBox annotation) = annotation_token annotation
             \<and> box_category_name (makeBox annotation) = annotation_categoryName annotation)"
proof (cases "sceneAnnotations this (sampleData_sampleToken sampleData)")
  case None
  with assms have "getBoxes slerp this sampleData boxes =
      ([''can't find current sample token in sceneAnnotations''], boxes)"
    by (auto simp: getBoxes_def)
  with None show ?thesis
    by (simp add: annotationsOfSample_def makeBox_fields)
next
  case (Some annotations)
  with assms have "getBoxes slerp this sampleData boxes = ([], boxes @ map makeBox annotations)"
    by (simp add: getBoxes_keyframe_branch)
  with Some show ?thesis
    by (simp add: annotationsOfSample_def makeBox_fields)
qed

theorem getBoxes_keyframe_identity_witness:
  "snd (getBoxes example_slerp example_scene example_keyframe []) =
     [makeBox example_car, makeBox example_pedestrian]
   \<and> snd (getBoxes example_slerp example_scene example_sweep_first []) =
     [makeBox example_car_before]
   \<and> box_center (makeBox example_car) = (Val 2, Val 4, Val 6)
   \<and> box_category_name (makeBox example_car) = ''vehicle.car''"
proof -
  have s2: "sceneSamples example_scene (sampleData_sampleToken example_keyframe) =
      Some example_sample2"
    by (simp add: example_scene_def example_keyframe_def)
  have key: "sampleData_isKeyFrame example_keyframe \<or> sample_prev example_sample2 = []"
    by (simp add: example_keyframe_def)
  have s1: "sceneSamples example_scene (sampleData_sampleToken example_sweep_first) =
      Some example_sample1"
    by (simp add: example_scene_def example_sweep_first_def)
  have first: "sampleData_isKeyFrame example_sweep_first \<or> sample_prev example_sample1 = []"
    by (simp add: example_sample1_def)
  have a2: "annotationsOfSample example_scene (sampleData_sampleToken example_keyframe) =
      [example_car, example_pedestrian]"
    by (simp add: annotationsOfSample_def example_scene_def example_keyframe_def)
  have a1: "annotationsOfSample example_scene (sampleData_sampleToken example_sweep_first) =
      [example_car_before]"
    by (simp add: annotationsOfSample_def example_scene_def example_sweep_first_def)
  have car: "annotation_translation example_car = (Val 2, Val 4, Val 6)"
      "annotation_categoryName example_car = ''vehicle.car''"
    by (simp_all add: example_car_def)
  from getBoxes_keyframe_identity [OF s2 key, of example_slerp "[]"]
    getBoxes_keyframe_identity [OF s1 first, of example_slerp "[]"] a1 a2 car
  show ?thesis by simp
qed

section \<open>Time stamps outside the interval of the two samples\<close>

text \<open>
  C2. For an intermediate sample data record (not a key frame, the sample's previous
  token not empty, all lookups successful) with previous sample time \<open>t0\<close> and
  current sample time \<open>t1\<close>, \<open>t0 < t1\<close>: when the record's own time stamp is below
  \<open>t0\<close> the fraction the code computes is exactly 0, and when it is above \<open>t1\<close>
  exactly 1, and every box of an instance present in both samples is the one
  interpolated at that fraction.
\<close>

theorem getBoxes_fraction_clamped:
  assumes "sceneSamples this (sampleData_sampleToken sampleData) = Some currSample"
    and "\<not> sampleData_isKeyFrame sampleData" and "sample_prev currSample \<noteq> []"
    and "sceneSamples this (sample_prev currSample) = Some prevSample"
    and "sceneAnnotations this (sampleData_sampleToken sampleData) = Some currAnnotations"
    and "sceneAnnotations this (sample_token prevSample) = Some prevAnnotations"
    and "sample_timeStamp prevSample < sample_timeStamp currSample"
  shows "(sampleData_timeStamp sampleData < sample_timeStamp prevSample \<longrightarrow>
            amount (sample_timeStamp prevSample) (sample_timeStamp currSample)
              (clampTimeStamp (sample_timeStamp prevSample) (sample_timeStamp currSample)
                 (sampleData_timeStamp sampleData)) = Val 0
          \<and> snd (getBoxes slerp this sampleData boxes) =
              boxes @ map (spec_boxAtFraction slerp prevAnnotations (Val 0)) currAnnotations)
       \<and> (sample_timeStamp currSample < sampleData_timeStamp sampleData \<longrightarrow>
            amount (sample_timeStamp prevSample) (sample_timeStamp currSample)
              (clampTimeStamp (sample_timeStamp prevSample) (sample_timeStamp currSample)
                 (sampleData_timeStamp sampleData)) = Val 1
          \<and> snd (getBoxes slerp this sampleData boxes) =
              boxes @ map (spec_boxAtFraction slerp prevAnnotations (Val 1)) currAnnotations)"
proof -
  let ?prev = "sample_timeStamp prevSample" and ?curr = "sample_timeStamp currSample"
  let ?own = "sampleData_timeStamp sampleData"
  have ne: "?curr \<noteq> ?prev" using assms(7) by auto
  have out: "snd (getBoxes slerp this sampleData boxes) =
      boxes @ map (spec_boxAtFraction slerp prevAnnotations
        (amount ?prev ?curr (clampTimeStamp ?prev ?curr ?own))) currAnnotations"
    using getBoxes_intermediate_branch [OF assms(1-6)] by simp
  have below: "amount ?prev ?curr (clampTimeStamp ?prev ?curr ?own) = Val 0" if "?own < ?prev"
  proof -
    have "clampTimeStamp ?prev ?curr ?own = ?prev"
      using assms(7) that by (rule clampTimeStamp_below)
    then show ?thesis using amount_at_t0 [OF ne] by simp
  qed
  have above: "amount ?prev ?curr (clampTimeStamp ?prev ?curr ?own) = Val 1" if "?curr < ?own"
  proof -
    have "clampTimeStamp ?prev ?curr ?own = ?curr"
      using assms(7) that by (rule clampTimeStamp_above)
    then show ?thesis using amount_at_t1 [OF ne] by simp
  qed
  from out below above show ?thesis by simp
qed

theorem getBoxes_fraction_clamped_witness:
  "amount 100 200 (clampTimeStamp 100 200 50) = Val 0
   \<and> amount 100 200 (clampTimeStamp 100 200 250) = Val 1
   \<and> snd (getBoxes example_slerp example_scene example_sweep_early []) =
       map (spec_boxAtFraction example_slerp [example_car_before] (Val 0))
         [example_car, example_pedestrian]
   \<and> snd (getBoxes example_slerp example_scene example_sweep_late []) =
       map (spec_boxAtFraction example_slerp [example_car_before] (Val 1))
         [example_car, example_pedestrian]
   \<and> box_center (spec_boxAtFraction example_slerp [example_car_before] (Val 0) example_car) =
       (Val 0, Val 0, Val 0)
   \<and> box_center (spec_boxAtFraction example_slerp [example_car_before] (Val 1) example_car) =
       (Val 2, Val 4, Val 6)"
proof -
  have cur: "sceneSamples example_scene (sampleData_sampleToken example_sweep_early) =
        Some example_sample2"
      "sceneSamples example_scene (sampleData_sampleToken example_sweep_late) =
        Some example_sample2"
    by (simp_all add: example_scene_def example_sweep_early_def example_sweep_late_def)
  have nokey: "\<not> sampleData_isKeyFrame example_sweep_early"
      "\<not> sampleData_isKeyFrame example_sweep_late"
    by (simp_all add: example_sweep_early_def example_sweep_late_def)
  have prev: "sample_prev example_sample2 \<noteq> []"
    by (simp add: example_sample2_def)
  have prv: "sceneSamples example_scene (sample_prev example_sample2) = Some example_sample1"
    by (simp add: example_scene_def example_sample2_def)
  have ca: "sceneAnnotations example_scene (sampleData_sampleToken example_sweep_early) =
        Some [example_car, example_pedestrian]"
      "sceneAnnotations example_scene (sampleData_sampleToken example_sweep_late) =
        Some [example_car, example_pedestrian]"
    by (simp_all add: example_scene_def example_sweep_early_def example_sweep_late_def)
  have pa: "sceneAnnotations example_scene (sample_token example_sample1) =
      Some [example_car_before]"
    by (simp add: example_scene_def example_sample1_def)
  have lt: "sample_timeStamp example_sample1 < sample_timeStamp example_sample2"
    by (simp add: example_sample1_def example_sample2_def)
  have ts: "sample_timeStamp example_sample1 = 100" "sample_timeStamp example_sample2 = 200"
      "sampleData_timeStamp example_sweep_early = 50"
      "sampleData_timeStamp example_sweep_late = 250"
    by (simp_all add: example_sample1_def example_sample2_def example_sweep_early_def
        example_sweep_late_def)
  have early: "sampleData_timeStamp example_sweep_early < sample_timeStamp example_sample1"
    by (simp add: ts)
  have late: "sample_timeStamp example_sample2 < sampleData_timeStamp example_sweep_late"
    by (simp add: ts)
  have c0: "box_center (spec_boxAtFraction example_slerp [example_car_before] (Val 0)
      example_car) = (Val 0, Val 0, Val 0)"
    by (simp add: spec_boxAtFraction_def example_car_before_def example_car_def
        makeBox3_fields)
  have c1: "box_center (spec_boxAtFraction example_slerp [example_car_before] (Val 1)
      example_car) = (Val 2, Val 4, Val 6)"
    by (simp add: spec_boxAtFraction_def example_car_before_def example_car_def
        makeBox3_fields)
  from getBoxes_fraction_clamped [OF cur(1) nokey(1) prev prv ca(1) pa lt,
      of example_slerp "[]"] early
    getBoxes_fraction_clamped [OF cur(2) nokey(2) prev prv ca(2) pa lt,
      of example_slerp "[]"] late c0 c1
  show ?thesis by (simp add: ts)
qed

section \<open>Interpolation at the midpoint\<close>

text \<open>
  At fraction one half the centre of an interpolated box is the mean of the two
  translations, and size and category name are the current annotation's. The
  orientation is what \<open>slerp\<close> returns at one half; its norm is a property of Eigen's
  \<^verbatim>\<open>slerp\<close> in floating-point arithmetic, which this model does not contain.
\<close>

lemma lerp_half: "lerp (Val (1 / 2)) p q = spec_mean q p"
proof -
  have half: "dadd (dmul (Val (1 / 2)) u) (dmul (dsub (Val 1) (Val (1 / 2))) v) =
      ddiv (dadd v u) (Val 2)" for u v
    by (cases u; cases v) simp_all
  obtain x0 y0 z0 where p: "p = (x0, y0, z0)" by (cases p)
  obtain x1 y1 z1 where q: "q = (x1, y1, z1)" by (cases q)
  show ?thesis unfolding p q lerp.simps spec_mean.simps half ..
qed

lemma spec_boxAtFraction_half:
  assumes "find (\<lambda>p. annotation_instanceToken p = annotation_instanceToken annotation)
      prevAnnotations = Some prevAnnotation"
  shows "box_center (spec_boxAtFraction slerp prevAnnotations (Val (1 / 2)) annotation) =
           spec_mean (annotation_translation prevAnnotation) (annotation_translation annotation)
       \<and> box_orientation (spec_boxAtFraction slerp prevAnnotations (Val (1 / 2)) annotation) =
           slerp (Val (1 / 2)) (annotation_rotation prevAnnotation)
             (annotation_rotation annotation)
       \<and> box_size (spec_boxAtFraction slerp prevAnnotations (Val (1 / 2)) annotation) =
           annotation_size annotation
       \<and> box_category_name (spec_boxAtFraction slerp prevAnnotations (Val (1 / 2)) annotation) =
           annotation_categoryName annotation"
  using assms by (simp add: spec_boxAtFraction_def makeBox3_fields lerp_half)

lemma amount_midpoint: "amount 100 200 (clampTimeStamp 100 200 150) = Val (1 / 2)"
  by (simp add: amount_def clampTimeStamp_def double_of_uint64_def Let_def)

section \<open>Instances that appear with the current sample\<close>

text \<open>
  Against C4 as stated: an intermediate record whose previous sample has no entry in
  the annotation map. No annotation is attached to the previous sample, so the
  instance tokens of both current annotations do not occur among the previous
  sample's annotations; \<^verbatim>\<open>getBoxes\<close> prints a line and returns (387-395), and
  neither annotation gets a box.
\<close>

theorem getBoxes_new_instance_without_previous_entry:
  "sceneSamples example_scene_unannotated_start (sampleData_sampleToken example_sweep_early) =
     Some example_sample2
   \<and> \<not> sampleData_isKeyFrame example_sweep_early
   \<and> sample_prev example_sample2 \<noteq> []
   \<and> sceneSamples example_scene_unannotated_start (sample_prev example_sample2) =
     Some example_sample1
   \<and> sceneAnnotations example_scene_unannotated_start
       (sampleData_sampleToken example_sweep_early) = Some [example_car, example_pedestrian]
   \<and> annotationsOfSample example_scene_unannotated_start (sample_token example_sample1) = []
   \<and> annotation_instanceToken example_pedestrian \<notin> annotation_instanceToken `
       set (annotationsOfSample example_scene_unannotated_start (sample_token example_sample1))
   \<and> getBoxes example_slerp example_scene_unannotated_start example_sweep_early [] =
     ([''can't find previous sample token in sceneAnnotations''], [])"
  by (simp add: getBoxes_def annotationsOfSample_def example_scene_unannotated_start_def
      example_scene_def example_sweep_early_def example_sample1_def example_sample2_def)

text \<open>
  C4, amended. For an intermediate sample data record (not a key frame, the sample's
  previous token not empty, both samples in the sample map and the current sample in
  the annotation map) whose previous sample has an entry in the annotation map,
  \<^verbatim>\<open>getBoxes\<close> appends one box per annotation of the current sample, and the box
  of every annotation whose instance token does not occur among the previous sample's
  annotations is the box \<^verbatim>\<open>makeBox\<close> builds from that annotation alone:
  translation, size, rotation, token and category name are the annotation's.
\<close>

theorem getBoxes_new_instance_unchanged:
  assumes "sceneSamples this (sampleData_sampleToken sampleData) = Some currSample"
    and "\<not> sampleData_isKeyFrame sampleData" and "sample_prev currSample \<noteq> []"
    and "sceneSamples this (sample_prev currSample) = Some prevSample"
    and "sceneAnnotations this (sampleData_sampleToken sampleData) = Some currAnnotations"
    and "sceneAnnotations this (sample_token prevSample) = Some prevAnnotations"
    and "i < length currAnnotations"
    and "annotation_instanceToken (currAnnotations ! i)
           \<notin> annotation_instanceToken ` set prevAnnotations"
  shows "length (snd (getBoxes slerp this sampleData boxes)) =
           length boxes + length currAnnotations
       \<and> snd (getBoxes slerp this sampleData boxes) ! (length boxes + i) =
           makeBox (currAnnotations ! i)
       \<and> box_center (snd (getBoxes slerp this sampleData boxes) ! (length boxes + i)) =
           annotation_translation (currAnnotations ! i)
       \<and> box_size (snd (getBoxes slerp this sampleData boxes) ! (length boxes + i)) =
           annotation_size (currAnnotations ! i)
       \<and> box_orientation (snd (getBoxes slerp this sampleData boxes) ! (length boxes + i)) =
           annotation_rotation (currAnnotations ! i)
       \<and> box_token (snd (getBoxes slerp this sampleData boxes) ! (length boxes + i)) =
           annotation_token (currAnnotations ! i)
       \<and> box_category_name (snd (getBoxes slerp this sampleData boxes) ! (length boxes + i)) =
           annotation_categoryName (currAnnotations ! i)"
proof -
  define fraction where "fraction =
    amount (sample_timeStamp prevSample) (sample_timeStamp currSample)
      (clampTimeStamp (sample_timeStamp prevSample) (sample_timeStamp currSample)
         (sampleData_timeStamp sampleData))"
  have out: "snd (getBoxes slerp this sampleData boxes) =
      boxes @ map (spec_boxAtFraction slerp prevAnnotations fraction) currAnnotations"
    using getBoxes_intermediate_branch [OF assms(1-6)] by (simp add: fraction_def)
  have "find (\<lambda>p. annotation_instanceToken p = annotation_instanceToken (currAnnotations ! i))
      prevAnnotations = None"
  proof (rule ccontr)
    assume "find (\<lambda>p. annotation_instanceToken p =
        annotation_instanceToken (currAnnotations ! i)) prevAnnotations \<noteq> None"
    then obtain p where "p \<in> set prevAnnotations"
        "annotation_instanceToken p = annotation_instanceToken (currAnnotations ! i)"
      by (auto simp: find_None_iff)
    then have "annotation_instanceToken (currAnnotations ! i)
        \<in> annotation_instanceToken ` set prevAnnotations"
      by (metis imageI)
    with assms(8) show False by contradiction
  qed
  then have new: "spec_boxAtFraction slerp prevAnnotations fraction (currAnnotations ! i) =
      makeBox (currAnnotations ! i)"
    by (simp add: spec_boxAtFraction_def)
  have nth: "snd (getBoxes slerp this sampleData boxes) ! (length boxes + i) =
      makeBox (currAnnotations ! i)"
    using assms(7) new by (simp add: out nth_append)
  have len: "length (snd (getBoxes slerp this sampleData boxes)) =
      length boxes + length currAnnotations"
    by (simp add: out)
  from len nth show ?thesis by (simp add: makeBox_fields)
qed

theorem getBoxes_new_instance_unchanged_witness:
  "snd (getBoxes example_slerp example_scene example_sweep_early []) ! 1 =
     makeBox example_pedestrian
   \<and> box_center (snd (getBoxes example_slerp example_scene example_sweep_early []) ! 1) =
     (Val 5, Val 5, Val 0)
   \<and> length (snd (getBoxes example_slerp example_scene example_sweep_early [])) = 2"
proof -
  have cur: "sceneSamples example_scene (sampleData_sampleToken example_sweep_early) =
      Some example_sample2"
    by (simp add: example_scene_def example_sweep_early_def)
  have nokey: "\<not> sampleData_isKeyFrame example_sweep_early"
    by (simp add: example_sweep_early_def)
  have prev: "sample_prev example_sample2 \<noteq> []"
    by (simp add: example_sample2_def)
  have prv: "sceneSamples example_scene (sample_prev example_sample2) = Some example_sample1"
    by (simp add: example_scene_def example_sample2_def)
  have ca: "sceneAnnotations example_scene (sampleData_sampleToken example_sweep_early) =
      Some [example_car, example_pedestrian]"
    by (simp add: example_scene_def example_sweep_early_def)
  have pa: "sceneAnnotations example_scene (sample_token example_sample1) =
      Some [example_car_before]"
    by (simp add: example_scene_def example_sample1_def)
  have i: "1 < length [example_car, example_pedestrian]"
    by simp
  have new: "annotation_instanceToken ([example_car, example_pedestrian] ! 1)
      \<notin> annotation_instanceToken ` set [example_car_before]"
    by (simp add: example_pedestrian_def example_car_before_def)
  have tr: "annotation_translation example_pedestrian = (Val 5, Val 5, Val 0)"
    by (simp add: example_pedestrian_def)
  from getBoxes_new_instance_unchanged [OF cur nokey prev prv ca pa i new,
      of example_slerp "[]"] tr
  show ?thesis by (simp add: makeBox_fields)
qed

section \<open>Failed lookups\<close>

text \<open>
  Against C10 as stated: the key-frame branch never looks at the previous sample. A
  key-frame record whose previous sample has no entry in the annotation map, and a
  record of the scene's first sample, whose previous-sample token (the empty token)
  is not in the sample map, both get their boxes.
\<close>

theorem getBoxes_boxes_despite_absent_previous:
  "sceneSamples example_scene_unannotated_start (sampleData_sampleToken example_keyframe) =
     Some example_sample2
   \<and> sceneSamples example_scene_unannotated_start (sample_prev example_sample2) =
     Some example_sample1
   \<and> sceneAnnotations example_scene_unannotated_start (sample_token example_sample1) = None
   \<and> snd (getBoxes example_slerp example_scene_unannotated_start example_keyframe []) =
     [makeBox example_car, makeBox example_pedestrian]
   \<and> sceneSamples example_scene (sampleData_sampleToken example_sweep_first) =
     Some example_sample1
   \<and> sceneSamples example_scene (sample_prev example_sample1) = None
   \<and> snd (getBoxes example_slerp example_scene example_sweep_first []) =
     [makeBox example_car_before]"
  by (simp add: getBoxes_def example_scene_unannotated_start_def example_scene_def
      example_keyframe_def example_sweep_first_def example_sample1_def example_sample2_def)

text \<open>
  C10, amended. \<^verbatim>\<open>getBoxes\<close> prints one line and returns with \<^verbatim>\<open>boxes\<close> as it
  was on entry when the record's sample token is not in the sample map, or the
  sample has no entry in the annotation map, or, for an intermediate record only (not
  a key frame, previous-sample token not empty), the previous-sample token is not in
  the sample map or the previous sample has no entry in the annotation map.
\<close>

theorem getBoxes_failed_lookup:
  assumes "sceneSamples this (sampleData_sampleToken sampleData) = None
     \<or> (\<exists>currSample. sceneSamples this (sampleData_sampleToken sampleData) = Some currSample
          \<and> (sceneAnnotations this (sampleData_sampleToken sampleData) = None
             \<or> (\<not> sampleData_isKeyFrame sampleData \<and> sample_prev currSample \<noteq> []
                \<and> (sceneSamples this (sample_prev currSample) = None
                   \<or> (\<exists>prevSample.
                        sceneSamples this (sample_prev currSample) = Some prevSample
                        \<and> sceneAnnotations this (sample_token prevSample) = None)))))"
  shows "snd (getBoxes slerp this sampleData boxes) = boxes
       \<and> length (fst (getBoxes slerp this sampleData boxes)) = 1"
  using assms
  by (auto simp: getBoxes_def Let_def split: option.splits)

theorem getBoxes_failed_lookup_witness:
  "getBoxes example_slerp example_scene_unannotated_start example_sweep_early
     [makeBox example_car_before] =
   ([''can't find previous sample token in sceneAnnotations''], [makeBox example_car_before])"
proof -
  have cur: "sceneSamples example_scene_unannotated_start
      (sampleData_sampleToken example_sweep_early) = Some example_sample2"
    by (simp add: example_scene_unannotated_start_def example_scene_def
        example_sweep_early_def)
  have mid: "\<not> sampleData_isKeyFrame example_sweep_early" "sample_prev example_sample2 \<noteq> []"
    by (simp_all add: example_sweep_early_def example_sample2_def)
  have prv: "sceneSamples example_scene_unannotated_start (sample_prev example_sample2) =
      Some example_sample1"
    by (simp add: example_scene_unannotated_start_def example_scene_def example_sample2_def)
  have none: "sceneAnnotations example_scene_unannotated_start (sample_token example_sample1) =
      None"
    by (simp add: example_scene_unannotated_start_def example_scene_def example_sample1_def)
  have line: "fst (getBoxes example_slerp example_scene_unannotated_start example_sweep_early
      [makeBox example_car_before]) = [''can't find previous sample token in sceneAnnotations'']"
    by (simp add: getBoxes_def example_scene_unannotated_start_def example_scene_def
        example_sweep_early_def example_sample1_def example_sample2_def)
  from cur mid prv none have "sceneSamples example_scene_unannotated_start
        (sampleData_sampleToken example_sweep_early) = None
     \<or> (\<exists>currSample. sceneSamples example_scene_unannotated_start
            (sampleData_sampleToken example_sweep_early) = Some currSample
          \<and> (sceneAnnotations example_scene_unannotated_start
                (sampleData_sampleToken example_sweep_early) = None
             \<or> (\<not> sampleData_isKeyFrame example_sweep_early \<and> sample_prev currSample \<noteq> []
                \<and> (sceneSamples example_scene_unannotated_start (sample_prev currSample) = None
                   \<or> (\<exists>prevSample.
                        sceneSamples example_scene_unannotated_start (sample_prev currSample) =
                          Some prevSample
                        \<and> sceneAnnotations example_scene_unannotated_start
                            (sample_token prevSample) = None)))))"
    by blast
  from getBoxes_failed_lookup [OF this, of example_slerp "[makeBox example_car_before]"] line
  show ?thesis by (simp add: prod_eq_iff)
qed

section \<open>Facts about markers and the annotation loop\<close>

lemma makeMarkerMsg_color:
  "marker_color (makeMarkerMsg pose box ident timestamp lifetime) = box_color box"
  by (simp add: makeMarkerMsg_def Let_def split: prod.split)

lemma makeMarkerMsg_colors:
  "marker_colors (makeMarkerMsg pose box ident timestamp lifetime) =
     replicate 24 (box_color box)"
  by (simp add: makeMarkerMsg_def Let_def numeral_eq_Suc split: prod.split)

lemma makeMarkerMsg_lines:
  "length (linesOf (marker_points (makeMarkerMsg pose box ident timestamp lifetime))) = 12"
  by (simp add: makeMarkerMsg_def Let_def split: prod.split)

lemma makeMarkerMsg_points:
  "length (marker_points (makeMarkerMsg pose box ident timestamp lifetime)) = 24"
  by (simp add: makeMarkerMsg_def Let_def split: prod.split)

lemma pushMarkers_map:
  assumes "\<And>box ident. f (makeMarkerMsg pose box ident timestamp lifetime) = h box"
  shows "map f (pushMarkers pose timestamp lifetime boxes ident markers) =
           map f markers @ map h boxes"
  using assms by (induction boxes arbitrary: ident markers) simp_all

lemma pushMarkers_ids:
  "map marker_id (pushMarkers pose timestamp lifetime boxes ident markers) =
     map marker_id markers @ map (\<lambda>k. ident + of_nat k) [0..<length boxes]"
proof (induction boxes arbitrary: ident markers)
  case Nil
  then show ?case by simp
next
  case (Cons box rest)
  have "map (\<lambda>k. ident + of_nat k) [0..<Suc (length rest)] =
      ident # map (\<lambda>k. ident + 1 + of_nat k) [0..<length rest]"
    by (simp add: upt_conv_Cons map_Suc_upt [symmetric] add.assoc del: upt_Suc)
  with Cons show ?case
    by (simp add: makeMarkerMsg_def Let_def split: prod.split del: upt_Suc)
qed

lemma convertAnnotations_loop_eq:
  "convertAnnotations_loop ext this records outBag =
     outBag @ concat (map (\<lambda>sampleData.
        if getSampleType (sampleData_fileName sampleData) = Some LIDAR
        then writeAnnotations ext this sampleData [] else []) records)"
proof (induction records arbitrary: outBag)
  case Nil
  then show ?case by simp
next
  case (Cons sampleData rest)
  have w: "writeAnnotations ext this sampleData outBag =
      outBag @ writeAnnotations ext this sampleData []"
    by (simp add: writeAnnotations_def Let_def)
  show ?case
  proof (cases "getSampleType (sampleData_fileName sampleData)")
    case None
    with Cons show ?thesis by simp
  next
    case (Some sampleType)
    with Cons w show ?thesis by simp
  qed
qed

lemma interpolateBox_color:
  "box_color (interpolateBox slerp m t0 t1 t annotation) =
     getColor (box_category_name (interpolateBox slerp m t0 t1 t annotation))"
  by (simp add: interpolateBox_def Let_def makeBox_fields makeBox3_fields split: option.split)

lemma getBoxes_colors:
  "map box_color (snd (getBoxes slerp this sampleData [])) =
     map (\<lambda>box. getColor (box_category_name box)) (snd (getBoxes slerp this sampleData []))"
  by (simp add: getBoxes_def Let_def pushBoxes_eq pushInterpolated_eq makeBox_fields
      interpolateBox_color split: option.split)

section \<open>The messages written for the annotations\<close>

text \<open>
  Against C5 as stated: a camera record of a sample with two annotations. Its boxes
  exist, and the conversion of the scene that holds this record alone writes nothing.
\<close>

theorem convertAnnotations_skips_camera_record:
  "sampleDatas example_scene_camera_only = [example_camera]
   \<and> snd (getBoxes (ext_slerp example_ext) example_scene_camera_only example_camera []) =
       [makeBox example_car, makeBox example_pedestrian]
   \<and> convertAnnotations example_ext example_scene_camera_only [] = []"
  by (simp add: convertAnnotations_def example_scene_camera_only_def example_scene_def
      example_camera_def getSampleType_def pairs_def getBoxes_def example_sample2_def)

text \<open>
  C5, amended. \<^verbatim>\<open>convertAnnotations\<close> goes through the scene's sample data records
  in order and writes, for every record whose file name \<^verbatim>\<open>getSampleType\<close> classifies
  as LIDAR and for no other record, two messages stamped with the record's time: on
  topic "boxes" the boxes \<^verbatim>\<open>getBoxes\<close> returns for the record, and on topic
  "boxes_viz" the marker list made from them. The marker list has one marker per
  box, in order; each marker is a list of 12 lines (24 points), and its colour, as
  the colour of each of its points, is the box's colour, which is the colour of the
  box's category name.
\<close>

theorem convertAnnotations_lidar_records:
  "convertAnnotations ext this outBag =
     outBag @ concat (map (\<lambda>sampleData.
        if getSampleType (sampleData_fileName sampleData) = Some LIDAR
        then [(''boxes'', ext_stampUs2RosTime ext (sampleData_timeStamp sampleData),
               BoxesMsg
                 \<lparr>boxes_stamp = ext_stampUs2RosTime ext (sampleData_timeStamp sampleData),
                  boxes_frame_id = ''map'',
                  boxes_boxes = snd (getBoxes (ext_slerp ext) this sampleData [])\<rparr>),
              (''boxes_viz'', ext_stampUs2RosTime ext (sampleData_timeStamp sampleData),
               MarkerArrayMsg
                 (makeMarkerArrayMsg (ext_applyPose ext)
                    (snd (getBoxes (ext_slerp ext) this sampleData []))
                    (ext_stampUs2RosTime ext (sampleData_timeStamp sampleData)) (1 / 25)))]
        else []) (sampleDatas this))
   \<and> map marker_color (makeMarkerArrayMsg pose boxes timestamp lifetime) = map box_color boxes
   \<and> map marker_colors (makeMarkerArrayMsg pose boxes timestamp lifetime) =
       map (\<lambda>box. replicate 24 (box_color box)) boxes
   \<and> map (\<lambda>marker. length (linesOf (marker_points marker)))
         (makeMarkerArrayMsg pose boxes timestamp lifetime) = map (\<lambda>box. 12) boxes
   \<and> map (\<lambda>marker. length (marker_points marker))
         (makeMarkerArrayMsg pose boxes timestamp lifetime) = map (\<lambda>box. 24) boxes
   \<and> map box_color (snd (getBoxes slerp this sampleData [])) =
       map (\<lambda>box. getColor (box_category_name box)) (snd (getBoxes slerp this sampleData []))"
proof -
  have loop: "convertAnnotations ext this outBag =
     outBag @ concat (map (\<lambda>sampleData.
        if getSampleType (sampleData_fileName sampleData) = Some LIDAR
        then [(''boxes'', ext_stampUs2RosTime ext (sampleData_timeStamp sampleData),
               BoxesMsg
                 \<lparr>boxes_stamp = ext_stampUs2RosTime ext (sampleData_timeStamp sampleData),
                  boxes_frame_id = ''map'',
                  boxes_boxes = snd (getBoxes (ext_slerp ext) this sampleData [])\<rparr>),
              (''boxes_viz'', ext_stampUs2RosTime ext (sampleData_timeStamp sampleData),
               MarkerArrayMsg
                 (makeMarkerArrayMsg (ext_applyPose ext)
                    (snd (getBoxes (ext_slerp ext) this sampleData []))
                    (ext_stampUs2RosTime ext (sampleData_timeStamp sampleData)) (1 / 25)))]
        else []) (sampleDatas this))"
    by (simp add: convertAnnotations_def convertAnnotations_loop_eq writeAnnotations_def
        Let_def cong: if_cong)
  have c: "map marker_color (makeMarkerArrayMsg pose boxes timestamp lifetime) =
      map box_color boxes"
    unfolding makeMarkerArrayMsg_def
    by (subst pushMarkers_map [where h = box_color]) (simp_all add: makeMarkerMsg_color)
  have cs: "map marker_colors (makeMarkerArrayMsg pose boxes timestamp lifetime) =
      map (\<lambda>box. replicate 24 (box_color box)) boxes"
    unfolding makeMarkerArrayMsg_def
    by (subst pushMarkers_map [where h = "\<lambda>box. replicate 24 (box_color box)"])
      (simp_all add: makeMarkerMsg_colors)
  have l: "map (\<lambda>marker. length (linesOf (marker_points marker)))
      (makeMarkerArrayMsg pose boxes timestamp lifetime) = map (\<lambda>box. 12) boxes"
    unfolding makeMarkerArrayMsg_def
    by (subst pushMarkers_map [where h = "\<lambda>box. 12"]) (simp_all add: makeMarkerMsg_lines)
  have p: "map (\<lambda>marker. length (marker_points marker))
      (makeMarkerArrayMsg pose boxes timestamp lifetime) = map (\<lambda>box. 24) boxes"
    unfolding makeMarkerArrayMsg_def
    by (subst pushMarkers_map [where h = "\<lambda>box. 24"]) (simp_all add: makeMarkerMsg_points)
  show ?thesis
    by (intro conjI) (rule loop c cs l p getBoxes_colors)+
qed

theorem convertAnnotations_lidar_records_witness:
  "map fst (convertAnnotations example_ext example_scene []) = [''boxes'', ''boxes_viz'']
   \<and> map marker_color
         (makeMarkerArrayMsg example_applyPose [makeBox example_car, makeBox example_pedestrian]
            \<lparr>sec = 0, nsec = 200000\<rparr> (1 / 25)) =
       [\<lparr>r = 1, g = 619 / 1000, b = 0, a = 1\<rparr>, \<lparr>r = 0, g = 0, b = 901 / 1000, a = 1\<rparr>]
   \<and> map (\<lambda>marker. length (linesOf (marker_points marker)))
         (makeMarkerArrayMsg example_applyPose [makeBox example_car, makeBox example_pedestrian]
            \<lparr>sec = 0, nsec = 200000\<rparr> (1 / 25)) = [12, 12]"
proof -
  have cam: "getSampleType (sampleData_fileName example_camera) = Some CAMERA"
    by (simp add: getSampleType_def pairs_def example_camera_def)
  have lidar: "getSampleType (sampleData_fileName example_keyframe) = Some LIDAR"
    by (simp add: getSampleType_def pairs_def example_keyframe_def)
  have records: "sampleDatas example_scene = [example_camera, example_keyframe]"
    by (simp add: example_scene_def)
  have colors: "box_color (makeBox example_car) = \<lparr>r = 1, g = 619 / 1000, b = 0, a = 1\<rparr>"
      "box_color (makeBox example_pedestrian) = \<lparr>r = 0, g = 0, b = 901 / 1000, a = 1\<rparr>"
    by (simp_all add: makeBox_fields example_car_def example_pedestrian_def getColor_def)
  from convertAnnotations_lidar_records [of example_ext example_scene "[]" example_applyPose
      "[makeBox example_car, makeBox example_pedestrian]" "\<lparr>sec = 0, nsec = 200000\<rparr>" "1 / 25"]
    cam lidar records colors
  show ?thesis by simp
qed

section \<open>Classification of directory and file names\<close>

lemma getSampleType_first_match:
  "getSampleType filename = spec_classify stringContains filename"
  by (simp add: getSampleType_def pairs_def spec_classify_def spec_markers_def)

lemma extractSampleSetDescriptorInDirectory_first_match:
  "map_option (\<lambda>sampleSet. setType (descriptor sampleSet))
     (extractSampleSetDescriptorInDirectory inDirectoryPath dirName) =
   spec_classify string_icontains dirName"
  by (simp add: extractSampleSetDescriptorInDirectory_def presets_def spec_classify_def
      spec_markers_def)

text \<open>
  Against C8 as stated: the test on file names is \<^verbatim>\<open>filename.find(str)\<close>, which
  compares bytes. A lower-case name holds the marker "CAM" when case is ignored, and
  \<^verbatim>\<open>getSampleType\<close> does not classify it.
\<close>

theorem getSampleType_case_sensitive:
  "string_icontains ''samples/cam_front/a.jpg'' ''CAM''
   \<and> getSampleType ''samples/cam_front/a.jpg'' = None
   \<and> map_option (\<lambda>sampleSet. setType (descriptor sampleSet))
       (extractSampleSetDescriptorInDirectory ''samples/cam_front'' ''cam_front'') = Some CAMERA"
  by code_simp

text \<open>
  C8, amended. Both classifications go through the ordered marker list CAM (camera),
  RADAR (radar), LIDAR (lidar) and return the category of the first marker that
  occurs in the name, and absent when none occurs. For a directory name
  (\<^verbatim>\<open>extractSampleSetDescriptorInDirectory\<close>) the occurrence test ignores case; for a
  file name (\<^verbatim>\<open>getSampleType\<close>) it is case-sensitive. Either way "CAM_FRONT" is a
  camera, "LIDAR_TOP" a lidar, and "MISC_SENSOR" is absent.
\<close>

theorem classification_first_match:
  "getSampleType filename = spec_classify stringContains filename
   \<and> map_option (\<lambda>sampleSet. setType (descriptor sampleSet))
       (extractSampleSetDescriptorInDirectory inDirectoryPath dirName) =
     spec_classify string_icontains dirName
   \<and> getSampleType filename =
       (if stringContains filename ''CAM'' then Some CAMERA
        else if stringContains filename ''RADAR'' then Some RADAR
        else if stringContains filename ''LIDAR'' then Some LIDAR
        else None)
   \<and> extractSampleSetDescriptorInDirectory inDirectoryPath dirName =
       (if string_icontains dirName ''CAM''
        then Some \<lparr>descriptor = \<lparr>directoryName = dirName, setType = CAMERA\<rparr>,
                   directoryPath = inDirectoryPath\<rparr>
        else if string_icontains dirName ''RADAR''
        then Some \<lparr>descriptor = \<lparr>directoryName = dirName, setType = RADAR\<rparr>,
                   directoryPath = inDirectoryPath\<rparr>
        else if string_icontains dirName ''LIDAR''
        then Some \<lparr>descriptor = \<lparr>directoryName = dirName, setType = LIDAR\<rparr>,
                   directoryPath = inDirectoryPath\<rparr>
        else None)
   \<and> getSampleType ''CAM_FRONT'' = Some CAMERA
   \<and> getSampleType ''LIDAR_TOP'' = Some LIDAR
   \<and> getSampleType ''MISC_SENSOR'' = None
   \<and> extractSampleSetDescriptorInDirectory ''samples/CAM_FRONT'' ''CAM_FRONT'' =
       Some \<lparr>descriptor = \<lparr>directoryName = ''CAM_FRONT'', setType = CAMERA\<rparr>,
             directoryPath = ''samples/CAM_FRONT''\<rparr>
   \<and> extractSampleSetDescriptorInDirectory ''samples/LIDAR_TOP'' ''LIDAR_TOP'' =
       Some \<lparr>descriptor = \<lparr>directoryName = ''LIDAR_TOP'', setType = LIDAR\<rparr>,
             directoryPath = ''samples/LIDAR_TOP''\<rparr>
   \<and> extractSampleSetDescriptorInDirectory ''samples/MISC_SENSOR'' ''MISC_SENSOR'' = None"
proof -
  have names: "getSampleType filename =
       (if stringContains filename ''CAM'' then Some CAMERA
        else if stringContains filename ''RADAR'' then Some RADAR
        else if stringContains filename ''LIDAR'' then Some LIDAR
        else None)"
    by (simp add: getSampleType_def pairs_def)
  have dirs: "extractSampleSetDescriptorInDirectory inDirectoryPath dirName =
       (if string_icontains dirName ''CAM''
        then Some \<lparr>descriptor = \<lparr>directoryName = dirName, setType = CAMERA\<rparr>,
                   directoryPath = inDirectoryPath\<rparr>
        else if string_icontains dirName ''RADAR''
        then Some \<lparr>descriptor = \<lparr>directoryName = dirName, setType = RADAR\<rparr>,
                   directoryPath = inDirectoryPath\<rparr>
        else if string_icontains dirName ''LIDAR''
        then Some \<lparr>descriptor = \<lparr>directoryName = dirName, setType = LIDAR\<rparr>,
                   directoryPath = inDirectoryPath\<rparr>
        else None)"
    by (simp add: extractSampleSetDescriptorInDirectory_def presets_def)
  have f1: "getSampleType ''CAM_FRONT'' = Some CAMERA"
    and f2: "getSampleType ''LIDAR_TOP'' = Some LIDAR"
    and f3: "getSampleType ''MISC_SENSOR'' = None"
    by (simp_all add: getSampleType_def pairs_def)
  have d1: "extractSampleSetDescriptorInDirectory ''samples/CAM_FRONT'' ''CAM_FRONT'' =
       Some \<lparr>descriptor = \<lparr>directoryName = ''CAM_FRONT'', setType = CAMERA\<rparr>,
             directoryPath = ''samples/CAM_FRONT''\<rparr>"
    by code_simp
  have d2: "extractSampleSetDescriptorInDirectory ''samples/LIDAR_TOP'' ''LIDAR_TOP'' =
       Some \<lparr>descriptor = \<lparr>directoryName = ''LIDAR_TOP'', setType = LIDAR\<rparr>,
             directoryPath = ''samples/LIDAR_TOP''\<rparr>"
    by code_simp
  have d3: "extractSampleSetDescriptorInDirectory ''samples/MISC_SENSOR'' ''MISC_SENSOR'' = None"
    by code_simp
  show ?thesis
    by (intro conjI)
      (rule getSampleType_first_match extractSampleSetDescriptorInDirectory_first_match
        names dirs f1 f2 f3 d1 d2 d3)+
qed

section \<open>Tasks posted to the worker pool\<close>

lemma makeQueues_cameras:
  assumes "list_all (\<lambda>sampleSet. setType (descriptor sampleSet) = CAMERA) sampleSets"
  shows "\<exists>queues1 converters1.
      makeQueues topicName sampleSets queues converters = Inr (queues1, converters1)
      \<and> length queues1 = length queues + length sampleSets
      \<and> length converters1 = length converters + length sampleSets
      \<and> (sampleSets = [] \<or> last converters1 =
            \<lparr>converter_queue = length queues + length sampleSets - 1,
             converter_directoryPath = directoryPath (last sampleSets)\<rparr>)"
  using assms
proof (induction sampleSets arbitrary: queues converters)
  case Nil
  then show ?case by simp
next
  case (Cons sampleSet rest)
  let ?queues = "queues @
      [(topicName (directoryName (descriptor sampleSet)) (setType (descriptor sampleSet)),
        length queues)]"
  let ?converters = "converters @
      [\<lparr>converter_queue = length queues, converter_directoryPath = directoryPath sampleSet\<rparr>]"
  from Cons.prems have cam: "setType (descriptor sampleSet) = CAMERA"
    and rest: "list_all (\<lambda>sampleSet. setType (descriptor sampleSet) = CAMERA) rest"
    by simp_all
  from Cons.IH [OF rest, of ?queues ?converters]
  obtain queues1 converters1 where
    run: "makeQueues topicName rest ?queues ?converters = Inr (queues1, converters1)"
    and lq: "length queues1 = length ?queues + length rest"
    and lc: "length converters1 = length ?converters + length rest"
    and la: "rest = [] \<or> last converters1 =
        \<lparr>converter_queue = length ?queues + length rest - 1,
         converter_directoryPath = directoryPath (last rest)\<rparr>"
    by blast
  have step: "makeQueues topicName (sampleSet # rest) queues converters =
      Inr (queues1, converters1)"
    using cam run by (simp add: Let_def)
  have "last converters1 =
      \<lparr>converter_queue = length queues + length (sampleSet # rest) - 1,
       converter_directoryPath = directoryPath (last (sampleSet # rest))\<rparr>"
  proof (cases rest)
    case Nil
    with run show ?thesis by auto
  next
    case (Cons s ss)
    with la show ?thesis by simp
  qed
  with step lq lc show ?case by simp
qed

lemma launchPipeline_posts_one:
  assumes "sampleSets \<noteq> []"
    and "list_all (\<lambda>sampleSet. setType (descriptor sampleSet) = CAMERA) sampleSets"
  shows "\<exists>pipeline. launchPipeline topicName sampleSets = Inr pipeline
      \<and> length (typeErasedQueueList pipeline) = length sampleSets
      \<and> length (sampleSetConverters pipeline) = length sampleSets
      \<and> posted pipeline =
          [\<lparr>converter_queue = length sampleSets - 1,
            converter_directoryPath = directoryPath (last sampleSets)\<rparr>]"
proof -
  from makeQueues_cameras [OF assms(2), of topicName "[]" "[]"] assms(1)
  obtain queues1 converters1 where
    run: "makeQueues topicName sampleSets [] [] = Inr (queues1, converters1)"
    and lq: "length queues1 = length sampleSets"
    and lc: "length converters1 = length sampleSets"
    and la: "last converters1 =
        \<lparr>converter_queue = length sampleSets - 1,
         converter_directoryPath = directoryPath (last sampleSets)\<rparr>"
    by auto
  from lc assms(1) have "converters1 \<noteq> []" by auto
  with run lq lc la show ?thesis by (simp add: launchPipeline_def)
qed

text \<open>
  C7 says that for every non-empty list of chosen sample sets one decode task per
  set is submitted to the worker pool, so that the producer of every queue runs. On
  the code, for the two camera sets that \<^verbatim>\<open>filterChosenSampleSets\<close> passes on: two
  queues and two converters are created, and \<^emph>\<open>one\<close> task is posted, the converter of
  the last set. The producer of the first queue is never run.
\<close>

theorem launchPipeline_two_cameras:
  "filterChosenSampleSets [example_cam_front, example_cam_back] =
     [example_cam_front, example_cam_back]
   \<and> launchPipeline topicNameForSampleSetType
       (filterChosenSampleSets [example_cam_front, example_cam_back]) =
     Inr \<lparr>typeErasedQueueList =
            [(topicNameForSampleSetType ''CAM_FRONT'' CAMERA, 0),
             (topicNameForSampleSetType ''CAM_BACK'' CAMERA, 1)],
          sampleSetConverters =
            [\<lparr>converter_queue = 0, converter_directoryPath = ''samples/CAM_FRONT''\<rparr>,
             \<lparr>converter_queue = 1, converter_directoryPath = ''samples/CAM_BACK''\<rparr>],
          posted = [\<lparr>converter_queue = 1, converter_directoryPath = ''samples/CAM_BACK''\<rparr>]\<rparr>"
  by (simp add: launchPipeline_def filterChosenSampleSets_def example_cam_front_def
      example_cam_back_def Let_def)

end
